theory Spec2Isabelle
  imports Complex_Main
begin

section \<open>Scalars\<close>

text \<open>
  The source computes with \<open>scalar_type\<close> (IEEE double). The embedding uses \<open>real\<close>:
  every expression is written with the operators, the operand order and the
  parenthesisation of the source, so that a statement of the form "these two source
  expressions are the same expression on the same operands" carries over to doubles.
  Real division by zero is \<open>0\<close> in HOL; in the source it gives an infinity or a NaN, with
  which the computation goes on. The compliance model therefore has an outcome of its own
  for "a division by zero occurs on the path the source executes" (\<open>None\<close>), tested
  before every quotient that decides a branch or enters a stored value; and the residual
  computation \<open>calcolo_Rk\<close>, whose divisor is zero on inputs of interest, is modelled with
  the non-finite outcomes written out.
\<close>

section \<open>Vessel compliance model (\<open>problemHT::vessel_conductivity_vec\<close>)\<close>

text \<open>The scalars read from the parameter file at the head of the function: \<open>U_\<close>, \<open>E\<close>,
  \<open>nu\<close>, \<open>P_\<close>, \<open>d\<close> and \<open>Gamma_\<close>.\<close>

record wall_param =
  w_U :: real
  w_E :: real
  w_nu :: real
  w_P :: real
  w_d :: real
  w_Gamma :: real

text \<open>What one degree of freedom receives: radius, area, perimeter (written to the
  parameter store) and the conductance (written to \<open>cond[j]\<close>).\<close>

record geom =
  g_R :: real
  g_area :: real
  g_per :: real
  g_cond :: real

text \<open>\<open>scalar_type e = 2.7182818284;\<close> and \<open>pow(e, x)\<close>.\<close>

definition e_const :: real where
  "e_const = 27182818284 / 10000000000"

definition pow_e :: "real \<Rightarrow> real" where
  "pow_e x = e_const powr x"

text \<open>The Poiseuille-type conductance of a circular section (lines 1472 and 1486, the
  same expression in both regimes); \<open>curv\<close> is \<open>param.Curv(i, indcv_loc)\<close>.\<close>

definition circular_cond :: "wall_param \<Rightarrow> real \<Rightarrow> real \<Rightarrow> real \<Rightarrow> real" where
  "circular_cond prm curv R area =
     w_U prm / w_P prm / w_d prm * area * area * 2 * (w_Gamma prm + 2) / pi / R / R / R / R
       * (1 + curv * curv * R * R)"

text \<open>Arteriole case (\<open>ratio >= 0.1\<close>), lines 1464--1472.\<close>

definition arteriole_R :: "wall_param \<Rightarrow> real \<Rightarrow> real \<Rightarrow> real \<Rightarrow> real \<Rightarrow> real \<Rightarrow> real" where
  "arteriole_R prm Ei Ru hu p_int p_ext =
     (let deltap = p_ext - p_int;
          den = (Ru + hu) * (Ru + hu) - Ru * Ru;
          B1 = (p_int * Ru * Ru - p_ext * (Ru + hu) * (Ru + hu)) / den;
          B2 = deltap * Ru * Ru * (Ru + hu) * (Ru + hu) / den
      in Ru * (1 + (1 - w_nu prm) / Ei * B1 - (1 + w_nu prm) / Ei * B2 / Ru / Ru))"

definition arteriole :: "wall_param \<Rightarrow> real \<Rightarrow> real \<Rightarrow> real \<Rightarrow> real \<Rightarrow> real \<Rightarrow> real \<Rightarrow> geom" where
  "arteriole prm Ei curv Ru hu p_int p_ext =
     (let R = arteriole_R prm Ei Ru hu p_int p_ext;
          area = pi * R * R;
          per = 2 * pi * R
      in \<lparr>g_R = R, g_area = area, g_per = per, g_cond = circular_cond prm curv R area\<rparr>)"

text \<open>Venule case (\<open>ratio < 0.1\<close>): the buckling threshold (line 1477) and the
  dimensionless pressure (line 1494), each \<open>None\<close> when its divisor is zero (the source
  then holds an infinity or a NaN); the circular venule (lines 1481--1486); the buckled
  venule (lines 1490--1511).\<close>

definition threshold :: "wall_param \<Rightarrow> real \<Rightarrow> real \<Rightarrow> real option" where
  "threshold prm Ei ratio =
     (if 1 - w_nu prm * w_nu prm = 0 then None
      else Some (3 * Ei * ratio * ratio * ratio / 12 / (1 - w_nu prm * w_nu prm)))"

definition venule_circular_R :: "wall_param \<Rightarrow> real \<Rightarrow> real \<Rightarrow> real \<Rightarrow> real \<Rightarrow> real \<Rightarrow> real" where
  "venule_circular_R prm Ei Ru hu p_int p_ext =
     (let deltap = p_ext - p_int; ratio = hu / Ru
      in Ru * (1 - (1 - w_nu prm * w_nu prm) / ratio / Ei * deltap))"

definition venule_circular :: "wall_param \<Rightarrow> real \<Rightarrow> real \<Rightarrow> real \<Rightarrow> real \<Rightarrow> real \<Rightarrow> real \<Rightarrow> geom" where
  "venule_circular prm Ei curv Ru hu p_int p_ext =
     (let R = venule_circular_R prm Ei Ru hu p_int p_ext;
          area = pi * R * R;
          per = 2 * pi * R
      in \<lparr>g_R = R, g_area = area, g_per = per, g_cond = circular_cond prm curv R area\<rparr>)"

definition p_adim_of :: "wall_param \<Rightarrow> real \<Rightarrow> real \<Rightarrow> real \<Rightarrow> real option" where
  "p_adim_of prm Ei ratio deltap =
     (if Ei * w_P prm = 0 \<or> ratio = 0 then None
      else Some (deltap * w_P prm * 12 * (1 - w_nu prm * w_nu prm) / (Ei * w_P prm) / ratio / ratio / ratio))"

text \<open>The buckled venule as a function of the undeformed radius and of \<open>p_adim\<close>. The
  radius is computed from the first assignment of \<open>area\<close>; in the \<open>else\<close> branch
  \<open>p_adim\<close> and \<open>area\<close> are assigned again, \<open>R\<close> is not.\<close>

definition buckled :: "real \<Rightarrow> real \<Rightarrow> geom" where
  "buckled Rtmp p_adim =
     (let area = 15.95 * pow_e (- 0.545 * p_adim) * Rtmp * Rtmp;
          per = 2 * pi * Rtmp;
          R = area / per
      in if p_adim < 5 then
           (let int_u_star = 69.56 * pow_e (- 1.74 * p_adim)
            in \<lparr>g_R = R, g_area = area, g_per = per,
                g_cond = area * area / Rtmp / Rtmp / Rtmp / Rtmp / int_u_star\<rparr>)
         else
           (let p_adim' = 5;
                int_u_starfake = 69.56 * pow_e (- 1.74 * p_adim');
                area' = 15.95 * pow_e (- 0.545 * p_adim') * Rtmp * Rtmp
            in \<lparr>g_R = R, g_area = area', g_per = per,
                g_cond = area' * area' / Rtmp / Rtmp / Rtmp / Rtmp / int_u_starfake\<rparr>))"

text \<open>The tests of the innermost loop body for one degree of freedom (lines 1458--1462,
  1477--1480 and 1494; the guard \<open>if (1)\<close> is always taken): which of the three branches
  runs, and for the buckling branch with which \<open>p_adim\<close>. \<open>Ru\<close>, \<open>hu\<close>, \<open>p_int\<close>,
  \<open>p_ext\<close> are the entries \<open>Ru[j]\<close>, \<open>hu[j]\<close>, \<open>p_int[j]\<close>, \<open>p_ext[j]\<close>. The result is
  \<open>None\<close> when one of the quotients the tests need (\<open>hu[j]/Ru[j]\<close>, the threshold,
  \<open>p_adim\<close>) has a zero divisor.\<close>

datatype regime = Arteriole | CircularVenule | Buckled real

definition regime_of :: "wall_param \<Rightarrow> real \<Rightarrow> real \<Rightarrow> real \<Rightarrow> real \<Rightarrow> real \<Rightarrow> regime option" where
  "regime_of prm Ei Ru hu p_int p_ext =
     (if Ru = 0 then None
      else
        (let deltap = p_ext - p_int; ratio = hu / Ru
         in if ratio \<ge> 0.1 then Some Arteriole
            else (case threshold prm Ei ratio of
                    None \<Rightarrow> None
                  | Some thr \<Rightarrow>
                      if deltap \<le> thr then Some CircularVenule
                      else (case p_adim_of prm Ei ratio deltap of
                              None \<Rightarrow> None
                            | Some p_adim \<Rightarrow> Some (Buckled p_adim)))))"

text \<open>The divisors of the two circular branches, in the order the source meets them: for
  the arteriole \<open>den\<close>, \<open>Ei\<close> and \<open>Ru[j]\<close> in the radius (lines 1465--1467) and \<open>P_\<close>,
  \<open>d\<close> and \<open>R\<close> in the conductance (line 1472); for the circular venule \<open>ratio\<close> and
  \<open>Ei\<close> (line 1481) and \<open>P_\<close>, \<open>d\<close> and \<open>R\<close> (line 1486). In the buckling branch the
  divisors after \<open>p_adim\<close> are the perimeter, \<open>Rtmp\<close> and the resistance integral, none
  of which is zero once \<open>Ru[j]\<close> is not.\<close>

definition arteriole_zero_divisor :: "wall_param \<Rightarrow> real \<Rightarrow> real \<Rightarrow> real \<Rightarrow> real \<Rightarrow> real \<Rightarrow> bool" where
  "arteriole_zero_divisor prm Ei Ru hu p_int p_ext =
     ((Ru + hu) * (Ru + hu) - Ru * Ru = 0 \<or> Ei = 0 \<or> Ru = 0 \<or> w_P prm = 0 \<or> w_d prm = 0
      \<or> arteriole_R prm Ei Ru hu p_int p_ext = 0)"

definition venule_zero_divisor :: "wall_param \<Rightarrow> real \<Rightarrow> real \<Rightarrow> real \<Rightarrow> real \<Rightarrow> real \<Rightarrow> bool" where
  "venule_zero_divisor prm Ei Ru hu p_int p_ext =
     (hu / Ru = 0 \<or> Ei = 0 \<or> w_P prm = 0 \<or> w_d prm = 0
      \<or> venule_circular_R prm Ei Ru hu p_int p_ext = 0)"

text \<open>The body of the innermost loop for one degree of freedom: the radius, area,
  perimeter and conductance it computes, or \<open>None\<close> when a division by zero occurs on the
  way.\<close>

definition vessel_dof :: "wall_param \<Rightarrow> real \<Rightarrow> real \<Rightarrow> real \<Rightarrow> real \<Rightarrow> real \<Rightarrow> real \<Rightarrow> geom option" where
  "vessel_dof prm Ei curv Ru hu p_int p_ext =
     (case regime_of prm Ei Ru hu p_int p_ext of
        None \<Rightarrow> None
      | Some Arteriole \<Rightarrow>
          if arteriole_zero_divisor prm Ei Ru hu p_int p_ext then None
          else Some (arteriole prm Ei curv Ru hu p_int p_ext)
      | Some CircularVenule \<Rightarrow>
          if venule_zero_divisor prm Ei Ru hu p_int p_ext then None
          else Some (venule_circular prm Ei curv Ru hu p_int p_ext)
      | Some (Buckled p_adim) \<Rightarrow> Some (buckled Ru p_adim))"

text \<open>The parameter store fields the model overwrites (\<open>param.replace_r\<close>,
  \<open>replace_area\<close>, \<open>replace_per\<close>: \<open>R_[i] = R_new\<close> and so on), and the loops. The
  vectors are indexed by the degrees of freedom of \<open>mf_coefv\<close> and are modelled as
  functions of the index. The finite-element service supplies, for each branch \<open>i\<close>,
  the elements of region \<open>i\<close> in visiting order, each with the global indices
  \<open>mf_coefv.ind_basic_dof_of_element(cv)\<close> and the local index
  \<open>mf_coefvi[i].ind_basic_dof_of_element(cv)[0]\<close>. \<open>Ru\<close>, \<open>hu\<close>, \<open>p_int\<close>, \<open>p_ext\<close>
  are passed by value, so the writes to the store do not change what later degrees of
  freedom read.\<close>

record pstore =
  R_v :: "nat \<Rightarrow> real"
  CSarea_v :: "nat \<Rightarrow> real"
  CSper_v :: "nat \<Rightarrow> real"

record compl_input =
  c_prm :: wall_param
  IMPORT_E :: bool
  E_branch :: "nat \<Rightarrow> real"
  Curv :: "nat \<Rightarrow> nat \<Rightarrow> real"
  c_Ru :: "nat \<Rightarrow> real"
  c_hu :: "nat \<Rightarrow> real"
  c_p_int :: "nat \<Rightarrow> real"
  c_p_ext :: "nat \<Rightarrow> real"

type_synonym element_dofs = "nat list \<times> nat"

text \<open>The dimensionless Young modulus: \<open>E_ = E/P_\<close>, computed once at the head of the
  function (line 1450), and the modulus \<open>Ei\<close> of branch \<open>i\<close> (lines 1451 and 1455), where
  \<open>E_branch i\<close> is \<open>param.E(mimv, i)\<close>, the mean of the imported Young modulus on the
  branch, computed by the finite-element service. Both are \<open>None\<close> when \<open>P_\<close> is zero.\<close>

definition E_adim :: "wall_param \<Rightarrow> real option" where
  "E_adim prm = (if w_P prm = 0 then None else Some (w_E prm / w_P prm))"

definition Ei_of :: "compl_input \<Rightarrow> nat \<Rightarrow> real option" where
  "Ei_of inp i =
     (case E_adim (c_prm inp) of
        None \<Rightarrow> None
      | Some E0 \<Rightarrow>
          if IMPORT_E inp then
            (if w_P (c_prm inp) = 0 then None else Some (E_branch inp i / w_P (c_prm inp)))
          else Some E0)"

definition dof_geom :: "compl_input \<Rightarrow> nat \<Rightarrow> nat \<Rightarrow> nat \<Rightarrow> geom option" where
  "dof_geom inp i indcv_loc j =
     (case Ei_of inp i of
        None \<Rightarrow> None
      | Some Ei \<Rightarrow>
          vessel_dof (c_prm inp) Ei (Curv inp i indcv_loc)
            (c_Ru inp j) (c_hu inp j) (c_p_int inp j) (c_p_ext inp j))"

text \<open>A loop over a list that stops with \<open>None\<close> as soon as its body does.\<close>

primrec fold_option :: "('a \<Rightarrow> 's \<Rightarrow> 's option) \<Rightarrow> 'a list \<Rightarrow> 's \<Rightarrow> 's option" where
  "fold_option f [] s = Some s"
| "fold_option f (x # xs) s = (case f x s of None \<Rightarrow> None | Some s' \<Rightarrow> fold_option f xs s')"

definition update_dof :: "compl_input \<Rightarrow> nat \<Rightarrow> nat \<Rightarrow> nat \<Rightarrow> pstore \<times> (nat \<Rightarrow> real) \<Rightarrow> (pstore \<times> (nat \<Rightarrow> real)) option" where
  "update_dof inp i indcv_loc j sc =
     (case dof_geom inp i indcv_loc j of
        None \<Rightarrow> None
      | Some g \<Rightarrow>
          (let st = fst sc; cond = snd sc
           in Some (st\<lparr>R_v := (R_v st)(j := g_R g), CSarea_v := (CSarea_v st)(j := g_area g),
                       CSper_v := (CSper_v st)(j := g_per g)\<rparr>,
                    cond(j := g_cond g))))"

definition update_element :: "compl_input \<Rightarrow> nat \<Rightarrow> element_dofs \<Rightarrow> pstore \<times> (nat \<Rightarrow> real) \<Rightarrow> (pstore \<times> (nat \<Rightarrow> real)) option" where
  "update_element inp i el sc = fold_option (update_dof inp i (snd el)) (fst el) sc"

definition update_branch :: "compl_input \<Rightarrow> nat \<times> element_dofs list \<Rightarrow> pstore \<times> (nat \<Rightarrow> real) \<Rightarrow> (pstore \<times> (nat \<Rightarrow> real)) option" where
  "update_branch inp ib sc = fold_option (update_element inp (fst ib)) (snd ib) sc"

text \<open>The function: the parameter store and \<open>cond\<close> after the loops, or \<open>None\<close> when a
  division by zero occurs, at the head of the function or at a visited degree of
  freedom.\<close>

definition vessel_conductivity_vec :: "compl_input \<Rightarrow> element_dofs list list \<Rightarrow> pstore \<times> (nat \<Rightarrow> real) \<Rightarrow> (pstore \<times> (nat \<Rightarrow> real)) option" where
  "vessel_conductivity_vec inp branches sc =
     (case E_adim (c_prm inp) of
        None \<Rightarrow> None
      | Some E0 \<Rightarrow> fold_option (update_branch inp) (enumerate 0 branches) sc)"

text \<open>The branch a degree of freedom \<open>j\<close> takes when it is visited in branch \<open>i\<close>.\<close>

definition dof_regime :: "compl_input \<Rightarrow> nat \<Rightarrow> nat \<Rightarrow> regime option" where
  "dof_regime inp i j =
     (case Ei_of inp i of
        None \<Rightarrow> None
      | Some Ei \<Rightarrow> regime_of (c_prm inp) Ei (c_Ru inp j) (c_hu inp j) (c_p_int inp j) (c_p_ext inp j))"

fun buckled_above :: "regime option \<Rightarrow> bool" where
  "buckled_above (Some (Buckled p_adim)) = (5 < p_adim)"
| "buckled_above r = False"

fun buckled_upto :: "regime option \<Rightarrow> bool" where
  "buckled_upto (Some (Buckled p_adim)) = (p_adim \<le> 5)"
| "buckled_upto r = False"

fun circular :: "regime option \<Rightarrow> bool" where
  "circular (Some Arteriole) = True"
| "circular (Some CircularVenule) = True"
| "circular r = False"

text \<open>The sequence of innermost-loop iterations as triples (branch, local index, global
  index), one iteration of the loop body on such a triple, and what the store and
  \<open>cond\<close> hold at a degree of freedom.\<close>

definition visits :: "element_dofs list list \<Rightarrow> (nat \<times> nat \<times> nat) list" where
  "visits branches =
     concat (map (\<lambda>ib. concat (map (\<lambda>el. map (\<lambda>j. (fst ib, snd el, j)) (fst el)) (snd ib)))
       (enumerate 0 branches))"

definition visit_dof :: "compl_input \<Rightarrow> nat \<times> nat \<times> nat \<Rightarrow> pstore \<times> (nat \<Rightarrow> real) \<Rightarrow> (pstore \<times> (nat \<Rightarrow> real)) option" where
  "visit_dof inp v = update_dof inp (fst v) (fst (snd v)) (snd (snd v))"

definition stored :: "pstore \<times> (nat \<Rightarrow> real) \<Rightarrow> nat \<Rightarrow> geom" where
  "stored sc j = \<lparr>g_R = R_v (fst sc) j, g_area = CSarea_v (fst sc) j, g_per = CSper_v (fst sc) j,
                  g_cond = snd sc j\<rparr>"

text \<open>Concrete inputs used below: a parameter set, a one-element network whose only degree
  of freedom is a thin-walled vessel under an external pressure that gives \<open>p_adim = 96\<close>, and an
  initial store
  holding the undeformed circular geometry.\<close>

definition prm0 :: wall_param where
  "prm0 = \<lparr>w_U = 1, w_E = 1, w_nu = 0, w_P = 1, w_d = 1, w_Gamma = 2\<rparr>"

definition inp_collapsed :: compl_input where
  "inp_collapsed = \<lparr>c_prm = prm0, IMPORT_E = False, E_branch = (\<lambda>i. 0), Curv = (\<lambda>i k. 0),
     c_Ru = (\<lambda>j. 1), c_hu = (\<lambda>j. 1 / 20), c_p_int = (\<lambda>j. 0), c_p_ext = (\<lambda>j. 1 / 1000)\<rparr>"

definition sc0 :: "pstore \<times> (nat \<Rightarrow> real)" where
  "sc0 = (\<lparr>R_v = (\<lambda>j. 1), CSarea_v = (\<lambda>j. pi), CSper_v = (\<lambda>j. 2 * pi)\<rparr>, (\<lambda>j. 0))"

text \<open>The same network with a milder external pressure, for which \<open>p_adim\<close> stays below 5,
  and a one-element network at thickness-to-radius ratio \<open>0.1\<close> with equal internal and
  external pressure and unit curvature.\<close>

definition inp_buckled_mild :: compl_input where
  "inp_buckled_mild = inp_collapsed\<lparr>c_p_ext := (\<lambda>j. 1 / 25000)\<rparr>"

definition inp_arteriole :: compl_input where
  "inp_arteriole = \<lparr>c_prm = prm0, IMPORT_E = False, E_branch = (\<lambda>i. 0), Curv = (\<lambda>i k. 1),
     c_Ru = (\<lambda>j. 1), c_hu = (\<lambda>j. 1 / 10), c_p_int = (\<lambda>j. 1 / 2), c_p_ext = (\<lambda>j. 1 / 2)\<rparr>"


section \<open>Hematocrit solve, residual and fixed-point loop\<close>

text \<open>How a run can stop abnormally. \<open>GMM_ASSERT1\<close> throws; in \<open>build_vessel_boundary\<close>
  the exception is caught by \<open>GMM_STANDARD_CATCH_ERROR\<close>, which prints the message and
  exits. An out-of-range subscript of a \<open>std::vector\<close>, an integer remainder by zero and
  dereferencing the end iterator are undefined behaviour; the embedding stops there.\<close>

datatype failure =
    Assertion string
  | DimensionMismatch
  | IndexOutOfRange
  | RemainderByZero
  | EmptyRange

type_synonym vec = "real list"

text \<open>\<open>gmm::scale(v, a)\<close> multiplies every entry by \<open>a\<close>; \<open>gmm::add(l1, l2)\<close> adds \<open>l1\<close> to
  \<open>l2\<close> in place and \<open>gmm::copy(l1, l2)\<close> overwrites \<open>l2\<close>, both after checking that the
  sizes agree; \<open>gmm::clear\<close> zeroes every entry; \<open>gmm::vect_norm2\<close> is the Euclidean
  norm.\<close>

definition gmm_scale :: "vec \<Rightarrow> real \<Rightarrow> vec" where
  "gmm_scale v a = map (\<lambda>x. x * a) v"

definition gmm_add :: "vec \<Rightarrow> vec \<Rightarrow> failure + vec" where
  "gmm_add l1 l2 = (if length l1 = length l2 then Inr (map2 (\<lambda>y x. y + x) l2 l1)
                    else Inl DimensionMismatch)"

definition gmm_copy :: "vec \<Rightarrow> nat \<Rightarrow> failure + vec" where
  "gmm_copy l1 n = (if length l1 = n then Inr l1 else Inl DimensionMismatch)"

definition gmm_clear :: "vec \<Rightarrow> vec" where
  "gmm_clear v = map (\<lambda>x. 0) v"

definition vect_norm2 :: "vec \<Rightarrow> real" where
  "vect_norm2 v = sqrt (sum_list (map (\<lambda>x. x * x) v))"

text \<open>A matrix is the list of its rows. \<open>gmm::clear\<close> of a matrix removes every entry and
  keeps the dimensions; \<open>gmm::mult(A, x, y)\<close> overwrites \<open>y\<close> with the product and
  \<open>gmm::mult_add(A, x, y)\<close> adds the product to \<open>y\<close>; \<open>gmm::sub_vector(v,
  sub_interval(first, n))\<close> is the \<open>n\<close> entries of \<open>v\<close> from index \<open>first\<close> on.\<close>

type_synonym mat = "real list list"

definition gmm_clear_mat :: "mat \<Rightarrow> mat" where
  "gmm_clear_mat A = map (map (\<lambda>x. 0)) A"

definition gmm_mult :: "mat \<Rightarrow> vec \<Rightarrow> vec" where
  "gmm_mult A x = map (\<lambda>row. sum_list (map2 (\<lambda>a b. a * b) row x)) A"

definition gmm_mult_add :: "mat \<Rightarrow> vec \<Rightarrow> vec \<Rightarrow> vec" where
  "gmm_mult_add A x y = map2 (\<lambda>c r. c + r) y (gmm_mult A x)"

definition sub_vector :: "vec \<Rightarrow> nat \<Rightarrow> nat \<Rightarrow> vec" where
  "sub_vector v first n = take n (drop first v)"

subsection \<open>\<open>problemHT::iteration_solve\<close>\<close>

text \<open>The collaborators of the hematocrit solve: the relaxation factor
  \<open>descrHT.underH\<close>, the size \<open>dofHT.H()\<close>, \<open>gmm::clean(AM_HT, 1E-12)\<close> and the
  direct solver, which maps the matrix and the right-hand side to the solution
  (\<open>gmm::SuperLU_solve(A_HT, U_new, F_N, cond)\<close> overwrites \<open>U_new\<close>).\<close>

record 'm ht_env =
  underH :: real
  dofH :: nat
  gmm_clean :: "'m \<Rightarrow> 'm"
  SuperLU_solve :: "'m \<Rightarrow> vec \<Rightarrow> vec"

text \<open>\<open>U_O\<close> and \<open>F_N\<close> are passed by value: the function works on its own copies, and
  what it does to \<open>U_O\<close> is lost on return. The member matrix \<open>AM_HT\<close> is cleaned in
  place, so the cleaned matrix is returned next to \<open>U_new\<close>.\<close>

definition iteration_solve :: "'m ht_env \<Rightarrow> 'm \<Rightarrow> vec \<Rightarrow> vec \<Rightarrow> failure + (vec \<times> 'm)" where
  "iteration_solve env AM U_O F_N =
     (let alfa = underH env;
          AM' = gmm_clean env AM;
          U_new = SuperLU_solve env AM' F_N
      in if alfa \<noteq> 1 then
           (let U_new1 = gmm_scale U_new alfa;
                U_O1 = gmm_scale U_O (1 - alfa)
            in case gmm_add U_O1 U_new1 of
                 Inl e \<Rightarrow> Inl e
               | Inr U_new2 \<Rightarrow> (let U_O2 = gmm_scale U_O1 (1 / (1 - alfa)) in Inr (U_new2, AM')))
         else Inr (U_new, AM'))"

subsection \<open>\<open>problemHT::calcolo_Rk\<close>\<close>

text \<open>The quotient of two doubles, with the outcomes of IEEE division by zero written
  out; the residual is such a quotient, and the loop compares it with a tolerance
  (\<open>x > eps\<close> is false for NaN and true for plus infinity).\<close>

datatype scalar = Fin real | PInf | MInf | NaN

definition ieee_div :: "real \<Rightarrow> real \<Rightarrow> scalar" where
  "ieee_div a b = (if b \<noteq> 0 then Fin (a / b) else if a = 0 then NaN else if 0 < a then PInf else MInf)"

fun gt_scalar :: "scalar \<Rightarrow> real \<Rightarrow> bool" where
  "gt_scalar (Fin x) eps = (x > eps)"
| "gt_scalar PInf eps = True"
| "gt_scalar MInf eps = False"
| "gt_scalar NaN eps = False"

definition calcolo_Rk :: "nat \<Rightarrow> vec \<Rightarrow> vec \<Rightarrow> failure + scalar" where
  "calcolo_Rk n U_N U_O =
     (case gmm_copy U_O n of Inl e \<Rightarrow> Inl e | Inr Sol_old \<Rightarrow>
      case gmm_copy U_N n of Inl e \<Rightarrow> Inl e | Inr Sol_new \<Rightarrow>
      (let Sol_old1 = gmm_scale Sol_old (- 1)
       in case gmm_add Sol_old1 Sol_new of Inl e \<Rightarrow> Inl e | Inr Sol_new1 \<Rightarrow>
          (let R_H = vect_norm2 Sol_new1;
               N_H = vect_norm2 Sol_old1
           in Inr (ieee_div R_H N_H))))"

subsection \<open>The viscosity of one degree of freedom (\<open>solve_fixpoint\<close>, lines 1000--1029)\<close>

text \<open>\<open>viscosity_vivo\<close> and \<open>viscosity_vitro\<close> are the two empirical correlations, defined
  outside this file. For a value of \<open>visco_v\<close> other than 0 and 1 the source prints a
  message and writes nothing.\<close>

definition viscosity_dof :: "int \<Rightarrow> (real \<Rightarrow> real \<Rightarrow> real \<Rightarrow> real) \<Rightarrow> (real \<Rightarrow> real \<Rightarrow> real \<Rightarrow> real)
    \<Rightarrow> real \<Rightarrow> real \<Rightarrow> real \<Rightarrow> real option" where
  "viscosity_dof visco_v viscosity_vivo viscosity_vitro h Rdim mu_plasma =
     (if visco_v = 0 then Some (if h = 0 then mu_plasma else viscosity_vivo h Rdim mu_plasma)
      else if visco_v = 1 then Some (if h = 0 then mu_plasma else viscosity_vitro h Rdim mu_plasma)
      else None)"

subsection \<open>\<open>problemHT::solve_fixpoint\<close>\<close>

text \<open>What the loop prints or writes, in order.\<close>

datatype event =
    Saved int
  | Residuals int scalar real scalar
  | NotConverged

text \<open>The variables of \<open>solve_fixpoint\<close> the control flow depends on. \<open>world\<close> stands for
  everything else the assemblers read and write (the flow matrix and right-hand side,
  the parameter store, the viscosity vector).\<close>

record ('m, 'w) fp_state =
  UM :: vec
  U_old :: vec
  U_new :: vec
  UM_HT :: vec
  H_old :: vec
  H_new :: vec
  AM_HT :: 'm
  FM_HT :: vec
  world :: 'w
  resSol :: scalar
  resCM :: real
  resH :: scalar
  RK :: bool
  iteration :: int
  out :: "event list"

text \<open>The configuration and the collaborators of the loop. \<open>flow_iteration\<close> is steps a to d
  of the loop body (geometry update from the lagged pressure, viscosity, reassembly of the
  flow system, lymphatic term, \<open>problem3d1d::iteration_solve\<close>): from the world, \<open>UM\<close>,
  \<open>U_old\<close> and \<open>H_old\<close> it gives the new world, \<open>U_new\<close>, and the exchange matrices
  \<open>Bvt\<close> and \<open>Bvv\<close> as \<open>asm_exchange_mat\<close> fills them (line 1112); the two matrices
  are local variables of the loop body (lines 1104 and 1106). \<open>assembly\<close> is
  \<open>problemHT::assembly\<close>, giving \<open>AM_HT\<close> and \<open>FM_HT\<close>. \<open>dof_Ut\<close>, \<open>dof_Pt\<close>,
  \<open>dof_Uv\<close> and \<open>dof_Pv\<close> are the block sizes \<open>dof.Ut()\<close>, \<open>dof.Pt()\<close>, \<open>dof.Uv()\<close>
  and \<open>dof.Pv()\<close> of the flow unknown; \<open>sigma\<close>, \<open>Pi_v\<close> and \<open>Pi_t\<close> are the oncotic
  parameters \<open>param.sigma()\<close>, \<open>param.pi_v()\<close> and \<open>param.pi_t()\<close>. \<open>mass_sum\<close> is the
  accumulated \<open>auxCM\<close> (lines 1269--1277 and 1281). \<open>calcolo_Rk_flow\<close> is
  \<open>problem3d1d::calcolo_Rk\<close>. \<open>Max_it\<close> is \<open>descr.Max_it\<close>, an integer the source
  stores in a double.\<close>

record ('m, 'w) fp_env =
  ht :: "'m ht_env"
  epsSol :: real
  epsCM :: real
  epsH :: real
  Max_it :: int
  Save_it :: int
  print_residual :: bool
  H_START :: real
  dof_Ut :: nat
  dof_Pt :: nat
  dof_Uv :: nat
  dof_Pv :: nat
  sigma :: real
  Pi_v :: real
  Pi_t :: real
  flow_iteration :: "'w \<Rightarrow> vec \<Rightarrow> vec \<Rightarrow> vec \<Rightarrow> 'w \<times> vec \<times> mat \<times> mat"
  assembly :: "'w \<Rightarrow> vec \<Rightarrow> vec \<Rightarrow> 'm \<times> vec"
  mass_sum :: "'w \<Rightarrow> vec \<Rightarrow> real"
  calcolo_Rk_flow :: "vec \<Rightarrow> vec \<Rightarrow> scalar"

text \<open>Line 1250: inside the loop \<open>RK\<close> and \<open>iteration < max_iteration\<close> hold, and
  \<open>iteration % iteration_save\<close> is evaluated only when \<open>print_res\<close> is set.\<close>

definition checkpoint :: "('m, 'w) fp_env \<Rightarrow> ('m, 'w) fp_state \<Rightarrow> failure + event list" where
  "checkpoint env st =
     (if RK st \<and> iteration st < Max_it env \<and> print_residual env then
        (if Save_it env = 0 then Inl RemainderByZero
         else if iteration st mod Save_it env = 0 then Inr [Saved (iteration st + 1)] else Inr [])
      else Inr [])"

text \<open>Lines 1213--1216 and 1235--1244, the total flow rate: \<open>Pt\<close> and \<open>Pv\<close> are cut out
  of \<open>U_new\<close>, \<open>Uphi\<close> is \<open>Bvt Pt\<close> plus \<open>Bvv Pv\<close> plus \<open>Bvv DeltaPi\<close>, where
  \<open>DeltaPi\<close> is the vector of ones scaled by \<open>-1\<close> and by \<open>sigma (Pi_v - Pi_t)\<close>, and
  \<open>TFR\<close> is \<open>std::accumulate(Uphi.begin(), Uphi.end(), 0.0)\<close>. (The sizes agree by
  construction: \<open>Bvt\<close> is \<open>dof.Pv()\<close> by \<open>dof.Pt()\<close>, \<open>Bvv\<close> is \<open>dof.Pv()\<close> by
  \<open>dof.Pv()\<close>, \<open>U_new\<close> has \<open>dof.tot()\<close> entries.) The function takes the two matrices
  as they are at line 1235.\<close>

definition total_flow_rate :: "('m, 'w) fp_env \<Rightarrow> mat \<Rightarrow> mat \<Rightarrow> vec \<Rightarrow> real" where
  "total_flow_rate env Bvt Bvv Unew =
     (let Pt = sub_vector Unew (dof_Ut env) (dof_Pt env);
          Pv = sub_vector Unew (dof_Ut env + dof_Pt env + dof_Uv env) (dof_Pv env);
          Uphi = gmm_mult Bvt Pt;
          Uphi1 = gmm_mult_add Bvv Pv Uphi;
          picoef = sigma env * (Pi_v env - Pi_t env);
          DeltaPi = gmm_scale (gmm_scale (replicate (dof_Pv env) 1) (- 1)) picoef;
          Uphi2 = gmm_mult_add Bvv DeltaPi Uphi1
      in foldl (\<lambda>a b. a + b) 0 Uphi2)"

text \<open>Lines 1279--1283: the mass residual is left at 0 when the total flow rate is 0; the
  continuation flag.\<close>

definition mass_residual :: "real \<Rightarrow> real \<Rightarrow> real" where
  "mass_residual TFR s = (if TFR \<noteq> 0 then s / TFR else 0)"

definition continue_flag :: "('m, 'w) fp_env \<Rightarrow> scalar \<Rightarrow> real \<Rightarrow> scalar \<Rightarrow> bool" where
  "continue_flag env rSol rCM rH =
     (gt_scalar rSol (epsSol env) \<or> \<bar>rCM\<bar> > epsCM env \<or> gt_scalar rH (epsH env))"

text \<open>Line 1205, \<open>H_new = iteration_solve(H_old, FM_HT)\<close>: the callee receives copies of
  \<open>H_old\<close> and \<open>FM_HT\<close>; the caller's \<open>H_new\<close> receives the result and the member
  \<open>AM_HT\<close> the cleaned matrix.\<close>

definition hematocrit_solve_call :: "('m, 'w) fp_env \<Rightarrow> ('m, 'w) fp_state \<Rightarrow> failure + ('m, 'w) fp_state" where
  "hematocrit_solve_call env st =
     (case iteration_solve (ht env) (AM_HT st) (H_old st) (FM_HT st) of
        Inl e \<Rightarrow> Inl e
      | Inr (Hnew, A') \<Rightarrow> Inr (st\<lparr>H_new := Hnew, AM_HT := A'\<rparr>))"

text \<open>One pass through the body of the \<open>while\<close> (lines 938--1334). The exchange matrices
  are added into the flow matrix and then cleared (\<open>gmm::clear(Bvv)\<close>, \<open>gmm::clear(Bvt)\<close>,
  lines 1151 and 1153); nothing assigns them again before line 1235, where the total flow
  rate is computed from them.\<close>

definition iteration_body :: "('m, 'w) fp_env \<Rightarrow> ('m, 'w) fp_state \<Rightarrow> failure + ('m, 'w) fp_state" where
  "iteration_body env st =
     (let (w1, Unew, Bvt, Bvv) = flow_iteration env (world st) (UM st) (U_old st) (H_old st);
          Bvv0 = gmm_clear_mat Bvv;
          Bvt0 = gmm_clear_mat Bvt;
          st1 = st\<lparr>world := w1, U_new := Unew, UM := Unew\<rparr>;
          (A, F) = assembly env w1 (UM st1) (UM_HT st1);
          st2 = st1\<lparr>AM_HT := A, FM_HT := F\<rparr>
      in case hematocrit_solve_call env st2 of
           Inl e \<Rightarrow> Inl e
         | Inr st3 \<Rightarrow>
           (let TFR = total_flow_rate env Bvt0 Bvv0 (U_new st3)
            in case checkpoint env st3 of
                 Inl e \<Rightarrow> Inl e
               | Inr saved \<Rightarrow>
                 (let rSol = calcolo_Rk_flow env (U_new st3) (U_old st3)
                  in case calcolo_Rk (dofH (ht env)) (H_new st3) (H_old st3) of
                       Inl e \<Rightarrow> Inl e
                     | Inr rH \<Rightarrow>
                       (let rCM = mass_residual TFR (mass_sum env (world st3) (U_new st3));
                            st4 = st3\<lparr>resSol := rSol, resH := rH, resCM := rCM,
                                      RK := continue_flag env rSol rCM rH,
                                      iteration := iteration st3 + 1\<rparr>;
                            st5 = st4\<lparr>out := out st4 @ saved @
                                        [Residuals (iteration st4) (resSol st4) (resCM st4) (resH st4)]\<rparr>;
                            st6 = st5\<lparr>U_old := U_new st5, H_old := H_new st5, UM_HT := H_new st5\<rparr>
                        in Inr (st6\<lparr>U_new := gmm_clear (U_new st6), H_new := gmm_clear (H_new st6)\<rparr>)))))"

text \<open>The loop guard, and the loop.\<close>

definition loop_guard :: "('m, 'w) fp_env \<Rightarrow> ('m, 'w) fp_state \<Rightarrow> bool" where
  "loop_guard env st = (RK st \<and> iteration st < Max_it env)"

function fixpoint_loop :: "('m, 'w) fp_env \<Rightarrow> ('m, 'w) fp_state \<Rightarrow> failure + ('m, 'w) fp_state" where
  "fixpoint_loop env st =
     (if loop_guard env st then
        (case iteration_body env st of Inl e \<Rightarrow> Inl e | Inr st' \<Rightarrow> fixpoint_loop env st')
      else Inr st)"
  by pat_completeness auto
termination
proof (relation "measure (\<lambda>(env, st). nat (Max_it env - iteration st))")
  show "wf (measure (\<lambda>(env, st). nat (Max_it env - iteration st)))" by simp
next
  fix env :: "('m, 'w) fp_env" and st st' :: "('m, 'w) fp_state"
  assume g: "loop_guard env st" and b: "iteration_body env st = Inr st'"
  from b have "iteration st' = iteration st + 1"
    unfolding iteration_body_def hematocrit_solve_call_def Let_def
    by (auto split: prod.splits sum.splits)
  with g show "((env, st'), (env, st)) \<in> measure (\<lambda>(env, st). nat (Max_it env - iteration st))"
    by (simp add: loop_guard_def)
qed

declare fixpoint_loop.simps [simp del]

text \<open>Before the loop (lines 735--935): the residuals start at a hundred times their
  tolerances, \<open>U_old\<close> is a copy of \<open>UM\<close>, the hematocrit is seeded at \<open>H_START\<close> and
  refined by one direct solve, \<open>RK\<close> is 1 and \<open>iteration\<close> is 0. (The copies are between
  vectors of the sizes \<open>dof.tot()\<close> and \<open>dofHT.H()\<close> by construction of the problem.)
  After the loop (lines 1339--1345 and 1385): \<open>U_old\<close> is copied into \<open>UM\<close>, a message is
  printed when \<open>RK\<close> still holds, and the function returns \<open>true\<close>.\<close>

definition initial_guess :: "('m, 'w) fp_env \<Rightarrow> ('m, 'w) fp_state \<Rightarrow> ('m, 'w) fp_state" where
  "initial_guess env st =
     (let st1 = st\<lparr>U_old := UM st, UM_HT := replicate (dofH (ht env)) (1 * H_START env),
                   resSol := Fin (epsSol env * 100), resCM := epsCM env * 100,
                   resH := Fin (epsH env * 100), RK := True, iteration := 0\<rparr>;
          (A, F) = assembly env (world st1) (UM st1) (UM_HT st1);
          A' = gmm_clean (ht env) A;
          H0 = SuperLU_solve (ht env) A' F
      in st1\<lparr>AM_HT := A', FM_HT := F, UM_HT := H0, H_old := H0\<rparr>)"

definition finish :: "('m, 'w) fp_state \<Rightarrow> ('m, 'w) fp_state \<times> bool" where
  "finish st =
     (let st1 = st\<lparr>UM := U_old st\<rparr>
      in (if RK st1 then st1\<lparr>out := out st1 @ [NotConverged]\<rparr> else st1, True))"

definition solve_fixpoint :: "('m, 'w) fp_env \<Rightarrow> ('m, 'w) fp_state \<Rightarrow> failure + (('m, 'w) fp_state \<times> bool)" where
  "solve_fixpoint env st =
     (case fixpoint_loop env (initial_guess env st) of Inl e \<Rightarrow> Inl e | Inr st' \<Rightarrow> Inr (finish st'))"

text \<open>Concrete inputs used below. The solver of the example returns the right-hand side
  (the system matrix is the identity), the hematocrit matrix and the world carry no data.\<close>

definition ht0 :: "unit ht_env" where
  "ht0 = \<lparr>underH = 1 / 2, dofH = 2, gmm_clean = (\<lambda>A. A), SuperLU_solve = (\<lambda>A F. F)\<rparr>"

definition env0 :: "(unit, unit) fp_env" where
  "env0 = \<lparr>ht = ht0, epsSol = 1 / 100, epsCM = 1 / 100, epsH = 1 / 100, Max_it = 1, Save_it = 1,
     print_residual = False, H_START = 1,
     dof_Ut = 0, dof_Pt = 0, dof_Uv = 1, dof_Pv = 0, sigma = 0, Pi_v = 0, Pi_t = 0,
     flow_iteration = (\<lambda>w um uo ho. (w, map (\<lambda>x. x / 2) uo, [], [])),
     assembly = (\<lambda>w um uh. ((), [1, 1])),
     mass_sum = (\<lambda>w u. 0),
     calcolo_Rk_flow = (\<lambda>un uo. Fin 1)\<rparr>"

definition s0 :: "(unit, unit) fp_state" where
  "s0 = \<lparr>UM = [4], U_old = [], U_new = [], UM_HT = [], H_old = [], H_new = [], AM_HT = (),
     FM_HT = [], world = (), resSol = Fin 0, resCM = 0, resH = Fin 0, RK = False, iteration = 0,
     out = []\<rparr>"

text \<open>A run whose flow unknown has one tissue pressure and one vessel pressure: the flow
  pass gives back the old iterate and the exchange matrices \<open>Bvt = Bvv = (1)\<close>, the
  accumulated \<open>auxCM\<close> is 1, the oncotic coefficient is zero, the solution residual is
  the relative change of the iterate, and at most ten iterations are allowed.\<close>

definition env1 :: "(unit, unit) fp_env" where
  "env1 = \<lparr>ht = ht0, epsSol = 1 / 100, epsCM = 1 / 100, epsH = 1 / 100, Max_it = 10, Save_it = 1,
     print_residual = False, H_START = 1,
     dof_Ut = 0, dof_Pt = 1, dof_Uv = 0, dof_Pv = 1, sigma = 0, Pi_v = 0, Pi_t = 0,
     flow_iteration = (\<lambda>w um uo ho. (w, uo, [[1]], [[1]])),
     assembly = (\<lambda>w um uh. ((), [1, 1])),
     mass_sum = (\<lambda>w u. 1),
     calcolo_Rk_flow = (\<lambda>un uo. ieee_div (vect_norm2 (map2 (\<lambda>a b. a - b) un uo)) (vect_norm2 uo))\<rparr>"

definition s1 :: "(unit, unit) fp_state" where
  "s1 = s0\<lparr>UM := [1, 1]\<rparr>"

text \<open>The state in which that run leaves the loop.\<close>

definition fin1 :: "(unit, unit) fp_state" where
  "fin1 = \<lparr>UM = [1, 1], U_old = [1, 1], U_new = [0, 0], UM_HT = [1, 1], H_old = [1, 1], H_new = [0, 0],
     AM_HT = (), FM_HT = [1, 1], world = (), resSol = Fin 0, resCM = 0, resH = Fin 0, RK = False,
     iteration = 1, out = [Residuals 1 (Fin 0) 0 (Fin 0)]\<rparr>"

section \<open>Artificial diffusivity (\<open>problemHT::assembly_mat\<close>, lines 475--509)\<close>

text \<open>\<open>*max_element\<close> and \<open>*min_element\<close> of a non-empty range.\<close>

definition max_element :: "vec \<Rightarrow> real" where
  "max_element v = fold max (tl v) (hd v)"

definition min_element :: "vec \<Rightarrow> real" where
  "min_element v = fold min (tl v) (hd v)"

text \<open>Lines 496--502: the largest absolute velocity of a branch.\<close>

definition max_abs_velocity :: "vec \<Rightarrow> real" where
  "max_abs_velocity Uvi =
     (let max_U_positive = max_element Uvi;
          max_U_negative = min_element Uvi
      in if max_U_positive > \<bar>max_U_negative\<bar> then max_U_positive else \<bar>max_U_negative\<bar>)"

text \<open>The loop over the branches. \<open>UMvec\<close> is the flow solution \<open>UM\<close>. A branch is given by the sizes
  \<open>meshv.convex_area_estimate(k, 2)\<close> of the elements of its region, in visiting order,
  and by \<open>mf_Uvi[i].nb_dof()\<close>; \<open>off\<close> is \<open>dof.Ut() + dof.Pt()\<close>. The variables
  \<open>shift_U\<close>, \<open>max_size\<close> and \<open>max_product\<close> live across the iterations: \<open>max_size\<close>
  is initialised once, before the loop, and only ever raised.\<close>

fun diffusivity_loop :: "vec \<Rightarrow> nat \<Rightarrow> (real list \<times> nat) list \<Rightarrow> nat \<Rightarrow> real \<Rightarrow> real \<Rightarrow> failure + real" where
  "diffusivity_loop UMvec off [] shift_U max_size max_product = Inr max_product"
| "diffusivity_loop UMvec off ((sizes, n) # brs) shift_U max_size max_product =
     (let max_size' = fold (\<lambda>temp m. if temp > m then temp else m) sizes max_size
      in if length UMvec < off + shift_U + n then Inl IndexOutOfRange
         else if n = 0 then Inl EmptyRange
         else
           (let Uvi = take n (drop (off + shift_U) UMvec);
                max_U = max_abs_velocity Uvi;
                temp = max_U * max_size'
            in diffusivity_loop UMvec off brs (shift_U + n) max_size'
                 (if temp > max_product then temp else max_product)))"

definition artificial_diffusivity :: "real \<Rightarrow> vec \<Rightarrow> nat \<Rightarrow> (real list \<times> nat) list \<Rightarrow> failure + real" where
  "artificial_diffusivity Theta UMvec off brs =
     (case diffusivity_loop UMvec off brs 0 0 0 of
        Inl e \<Rightarrow> Inl e
      | Inr max_product \<Rightarrow> Inr (max_product * Theta / 2))"

text \<open>The formula of the specification, for comparison: \<open>Theta / 2\<close> times the maximum
  over the branches of (largest absolute velocity of the branch times largest element
  size of the branch), each branch's size maximum taken over its own elements. Here the
  velocities of the branches are given as separate vectors.\<close>

definition spec_diffusivity :: "real \<Rightarrow> (real list \<times> vec) list \<Rightarrow> real" where
  "spec_diffusivity Theta brs =
     Theta / 2 * fold max (map (\<lambda>b. fold max (map abs (snd b)) 0 * fold max (fst b) 0) brs) 0"


section \<open>Network topology (\<open>problemHT::build_vessel_boundary\<close>)\<close>

text \<open>Modelled from the spec: the \<open>node\<close> type, which is declared outside the source files
  at hand. The fields are those the builder uses, \<open>label\<close>, \<open>value\<close>, \<open>idx\<close> (the
  vertex), \<open>rg\<close> (the region) and \<open>branches\<close>, a list of signed branch indices as the
  data model of the specification has it. The constructor call
  \<open>node(label, value, idx, rg)\<close> leaves \<open>branches\<close> empty.\<close>

record node =
  n_label :: string
  n_value :: real
  n_idx :: nat
  n_rg :: nat
  n_branches :: "int list"

definition new_node :: "string \<Rightarrow> real \<Rightarrow> nat \<Rightarrow> nat \<Rightarrow> node" where
  "new_node l v i r = \<lparr>n_label = l, n_value = v, n_idx = i, n_rg = r, n_branches = []\<rparr>"

text \<open>What the builder reads of the 1D mesh \<open>meshh\<close>: the convexes in increasing order (the
  order in which \<open>cv << nn\<close> extracts them), for each convex the numbers of points and faces
  of its structure, its global point indices and the local index of the first point of a
  face (\<open>cvs->ind_points_of_face(f)[0]\<close>), for each point the convexes attached to it, and
  for each region id the convexes the region holds, if the region exists.\<close>

record mesh =
  convex_index :: "nat list"
  nb_points :: "nat \<Rightarrow> nat"
  nb_faces :: "nat \<Rightarrow> nat"
  ind_points_of_convex :: "nat \<Rightarrow> nat list"
  ind_points_of_face :: "nat \<Rightarrow> nat \<Rightarrow> nat"
  convex_to_point :: "nat \<Rightarrow> nat list"
  region_convexes :: "nat \<Rightarrow> nat list option"

text \<open>What the builder writes: the faces it adds to new regions of the mesh, the first
  empty region \<open>fer\<close>, the two node lists, the two bit vectors and the two counters.\<close>

record builder =
  new_regions :: "(nat \<times> nat \<times> nat) list"
  fer :: nat
  BCv_HT :: "node list"
  Jv_HT :: "node list"
  junctions :: "nat set"
  extrema :: "nat set"
  nb_extrema :: nat
  nb_junctions :: nat

text \<open>\<open>meshh.has_region(r)\<close>, \<open>meshh.region(r).is_in(cv)\<close> (membership of the whole convex,
  which the faces added by the builder do not change) and \<open>meshh.region(r).add(cv, f)\<close>.
  A region exists when the mesh came with it or the builder has added a face to it; a
  membership query is taken not to create the region it asks about.\<close>

definition has_region :: "mesh \<Rightarrow> builder \<Rightarrow> nat \<Rightarrow> bool" where
  "has_region msh st r = (region_convexes msh r \<noteq> None \<or> r \<in> fst ` set (new_regions st))"

definition is_in :: "mesh \<Rightarrow> nat \<Rightarrow> nat \<Rightarrow> bool" where
  "is_in msh r cv = (case region_convexes msh r of None \<Rightarrow> False | Some cvs \<Rightarrow> cv \<in> set cvs)"

definition region_add :: "nat \<Rightarrow> nat \<Rightarrow> nat \<Rightarrow> builder \<Rightarrow> builder" where
  "region_add r cv f st = st\<lparr>new_regions := new_regions st @ [(r, cv, f)]\<rparr>"

text \<open>The four searches of the source have the shape
  \<open>k = 0; found = false; while (!found && k < n) { found = P(k); if (!found) k++; }\<close>.
  The loop leaves \<open>k\<close> at the first index below \<open>n\<close> where \<open>P\<close> holds and \<open>found\<close> true,
  or \<open>k = n\<close> and \<open>found\<close> false. \<open>search_from P k m\<close> runs the loop from \<open>k\<close> with \<open>m\<close>
  indices left.\<close>

fun search_from :: "(nat \<Rightarrow> bool) \<Rightarrow> nat \<Rightarrow> nat \<Rightarrow> nat" where
  "search_from P k 0 = k"
| "search_from P k (Suc m) = (if P k then k else search_from P (Suc k) m)"

definition search :: "(nat \<Rightarrow> bool) \<Rightarrow> nat \<Rightarrow> nat" where
  "search P n = search_from P 0 n"

text \<open>The containing branch of a convex: \<open>branch\<close> after the loop
  \<open>while (!contained && branch < nb_branches)\<close>; it is \<open>nb_branches\<close> when no branch region
  contains the convex. The statement after each of these loops,
  \<open>GMM_ASSERT1(contained=true, ...)\<close>, assigns \<open>true\<close> and tests the assigned value: it
  never throws. The same holds of \<open>GMM_ASSERT1(found=true, ...)\<close>.\<close>

definition find_branch :: "mesh \<Rightarrow> nat \<Rightarrow> nat \<Rightarrow> nat" where
  "find_branch msh nbr cv = search (\<lambda>branch. is_in msh branch cv) nbr"

definition find_bc :: "node list \<Rightarrow> nat \<Rightarrow> nat" where
  "find_bc bcs i = search (\<lambda>bc. i = n_idx (bcs ! bc)) (length bcs)"

definition find_junction :: "builder \<Rightarrow> nat \<Rightarrow> nat" where
  "find_junction st i = search (\<lambda>jj. i = n_idx (Jv_HT st ! jj)) (nb_junctions st)"

text \<open>Writes to \<open>v[k]\<close> of a \<open>std::vector\<close>; a subscript out of range stops the embedding.\<close>

definition update_at :: "nat \<Rightarrow> ('a \<Rightarrow> 'a) \<Rightarrow> 'a list \<Rightarrow> failure + 'a list" where
  "update_at k f xs = (if k < length xs then Inr (xs[k := f (xs ! k)]) else Inl IndexOutOfRange)"

definition elem_at :: "'a list \<Rightarrow> nat \<Rightarrow> failure + 'a" where
  "elem_at xs k = (if k < length xs then Inr (xs ! k) else Inl IndexOutOfRange)"

text \<open>\<open>GMM_ASSERT1(meshh.has_region(fer)==0, ...)\<close> followed by
  \<open>meshh.region(fer).add(cv, f)\<close>.\<close>

definition claim_region :: "mesh \<Rightarrow> nat \<Rightarrow> nat \<Rightarrow> builder \<Rightarrow> failure + builder" where
  "claim_region msh cv f st =
     (if has_region msh st (fer st) then Inl (Assertion ''Overload in meshv region assembling!'')
      else Inr (region_add (fer st) cv f st))"

text \<open>Attaching a branch to a node: the weight grows by the branch radius
  \<open>param.R(mimv, branch)\<close>, given here as the function \<open>Rb\<close> of the branch index, and the
  signed index is appended.\<close>

definition add_value :: "real \<Rightarrow> node \<Rightarrow> node" where
  "add_value r n = n\<lparr>n_value := n_value n + r\<rparr>"

definition push_branch :: "int \<Rightarrow> node \<Rightarrow> node" where
  "push_branch b n = n\<lparr>n_branches := n_branches n @ [b]\<rparr>"

text \<open>The first endpoint \<open>i0\<close> of the convex \<open>cv\<close> (lines 160--227).\<close>

definition process_i0 :: "(nat \<Rightarrow> real) \<Rightarrow> mesh \<Rightarrow> nat \<Rightarrow> nat \<Rightarrow> nat \<Rightarrow> builder \<Rightarrow> failure + builder" where
  "process_i0 Rb msh nbr cv i0 st =
     (let deg = length (convex_to_point msh i0)
      in if deg = 1 then
           (let st1 = st\<lparr>extrema := insert i0 (extrema st), nb_extrema := nb_extrema st + 1\<rparr>
            in case claim_region msh cv 1 st1 of Inl e \<Rightarrow> Inl e | Inr st2 \<Rightarrow>
               (let bc = find_bc (BCv_HT st2) i0
                in case update_at bc (\<lambda>n. n\<lparr>n_rg := fer st2\<rparr>) (BCv_HT st2) of Inl e \<Rightarrow> Inl e | Inr bcs \<Rightarrow>
                   (let st3 = st2\<lparr>BCv_HT := bcs, fer := fer st2 + 1\<rparr>;
                        branch = find_branch msh nbr cv
                    in case update_at bc (push_branch (int branch)) (BCv_HT st3) of Inl e \<Rightarrow> Inl e | Inr bcs' \<Rightarrow>
                       Inr (st3\<lparr>BCv_HT := bcs'\<rparr>))))
         else if deg = 2 then Inr st
         else if deg \<ge> 2 then
           (case (if i0 \<notin> junctions st then
                    (let st1 = st\<lparr>junctions := insert i0 (junctions st), nb_junctions := nb_junctions st + 1\<rparr>
                     in case claim_region msh cv 1 st1 of Inl e \<Rightarrow> Inl e | Inr st2 \<Rightarrow>
                        Inr (st2\<lparr>Jv_HT := Jv_HT st2 @ [new_node ''JUN'' 0 i0 (fer st2)], fer := fer st2 + 1\<rparr>))
                  else Inr st) of
              Inl e \<Rightarrow> Inl e
            | Inr st3 \<Rightarrow>
              (let branch = find_branch msh nbr cv;
                   jj = find_junction st3 i0
               in case update_at jj (add_value (Rb branch)) (Jv_HT st3) of Inl e \<Rightarrow> Inl e | Inr js \<Rightarrow>
                  (case update_at jj (push_branch (- int branch)) js of Inl e \<Rightarrow> Inl e | Inr js' \<Rightarrow>
                     if branch > 0 then Inr (st3\<lparr>Jv_HT := js'\<rparr>)
                     else Inl (Assertion ''Error in network labeling: -0 makes no sense''))))
         else Inr st)"

text \<open>The orientation of a convex at the vertex \<open>i1\<close> (lines 321--325 and 328--331): \<open>-1\<close>
  when its first point is \<open>i1\<close>, \<open>+1\<close> when its second point is, and a failed assertion
  otherwise.\<close>

definition orientation :: "mesh \<Rightarrow> nat \<Rightarrow> nat \<Rightarrow> string \<Rightarrow> failure + int" where
  "orientation msh c i1 msg =
     (case elem_at (ind_points_of_convex msh c) 0 of Inl e \<Rightarrow> Inl e | Inr q0 \<Rightarrow>
        if q0 = i1 then Inr (- 1)
        else (case elem_at (ind_points_of_convex msh c) 1 of Inl e \<Rightarrow> Inl e | Inr q1 \<Rightarrow>
                if q1 = i1 then Inr 1 else Inl (Assertion msg)))"

text \<open>The second endpoint \<open>i1\<close> of the convex \<open>cv\<close> (lines 229--380). The message the
  source writes to \<open>cout\<close> at a trivial junction is not modelled. At a vertex with two
  attached convexes the whole treatment of a new trivial junction, up to the two weight
  contributions, sits inside the test that the vertex is not yet stored.\<close>

definition process_i1 :: "(nat \<Rightarrow> real) \<Rightarrow> mesh \<Rightarrow> nat \<Rightarrow> nat \<Rightarrow> nat \<Rightarrow> builder \<Rightarrow> failure + builder" where
  "process_i1 Rb msh nbr cv i1 st =
     (let deg = length (convex_to_point msh i1)
      in if deg = 1 then
           (let bc = find_bc (BCv_HT st) i1;
                found = (bc < length (BCv_HT st))
            in if found then
                 (let st1 = st\<lparr>extrema := insert i1 (extrema st), nb_extrema := nb_extrema st + 1\<rparr>
                  in case claim_region msh cv 0 st1 of Inl e \<Rightarrow> Inl e | Inr st2 \<Rightarrow>
                     (case update_at bc (\<lambda>n. n\<lparr>n_value := n_value n * 1, n_rg := fer st2\<rparr>) (BCv_HT st2) of
                        Inl e \<Rightarrow> Inl e
                      | Inr bcs \<Rightarrow>
                        (let st3 = st2\<lparr>BCv_HT := bcs, fer := fer st2 + 1\<rparr>;
                             branch = find_branch msh nbr cv
                         in case update_at bc (push_branch (int branch)) (BCv_HT st3) of Inl e \<Rightarrow> Inl e | Inr bcs' \<Rightarrow>
                            Inr (st3\<lparr>BCv_HT := bcs'\<rparr>))))
               else
                 (case claim_region msh cv 0 st of Inl e \<Rightarrow> Inl e | Inr st2 \<Rightarrow>
                    (let st3 = st2\<lparr>BCv_HT := BCv_HT st2 @ [new_node ''MIX'' 0 i1 (fer st2)], fer := fer st2 + 1\<rparr>;
                         branch = find_branch msh nbr cv
                     in Inr (st3\<lparr>BCv_HT := butlast (BCv_HT st3) @ [push_branch (int branch) (last (BCv_HT st3))]\<rparr>))))
         else if deg = 2 then
           (let firstbranch = find_branch msh nbr cv;
                cv1 = convex_to_point msh i1 ! 0;
                cv2 = convex_to_point msh i1 ! 1;
                is_junc = (\<not> is_in msh firstbranch cv1 \<or> \<not> is_in msh firstbranch cv2)
            in if is_junc then
                 (if i1 \<notin> junctions st then
                    (let st1 = st\<lparr>junctions := insert i1 (junctions st), nb_junctions := nb_junctions st + 1\<rparr>
                     in case claim_region msh cv 0 st1 of Inl e \<Rightarrow> Inl e | Inr st2 \<Rightarrow>
                        (let st3 = st2\<lparr>Jv_HT := Jv_HT st2 @ [new_node ''JUN'' 0 i1 (fer st2)], fer := fer st2 + 1\<rparr>;
                             secondcv = (if cv1 = cv then cv2 else cv1);
                             firstcv = (if cv1 \<noteq> cv then cv2 else cv1);
                             secondbranch = search (\<lambda>b. b \<noteq> firstbranch \<and> is_in msh b secondcv) nbr
                         in case orientation msh firstcv i1 ''There's something wrong in firstbranch convex index'' of
                              Inl e \<Rightarrow> Inl e
                            | Inr in1 \<Rightarrow>
                              (case orientation msh secondcv i1 ''There's something wrong in secondbranch convex index'' of
                                 Inl e \<Rightarrow> Inl e
                               | Inr in2 \<Rightarrow>
                                 (let j0 = last (Jv_HT st3);
                                      j1 = push_branch (in1 * int firstbranch) j0;
                                      j2 = push_branch (in2 * int secondbranch) j1;
                                      j3 = add_value (Rb firstbranch) j2;
                                      j4 = add_value (Rb secondbranch) j3
                                  in Inr (st3\<lparr>Jv_HT := butlast (Jv_HT st3) @ [j4]\<rparr>)))))
                  else Inr st)
               else Inr st)
         else if deg \<ge> 2 then
           (let branch = find_branch msh nbr cv
            in if i1 \<notin> junctions st then
                 (let st1 = st\<lparr>junctions := insert i1 (junctions st), nb_junctions := nb_junctions st + 1\<rparr>
                  in case claim_region msh cv 0 st1 of Inl e \<Rightarrow> Inl e | Inr st2 \<Rightarrow>
                     (let j0 = new_node ''JUN'' 0 i1 (fer st2);
                          j1 = push_branch (int branch) j0;
                          j2 = add_value (Rb branch) j1
                      in Inr (st2\<lparr>Jv_HT := Jv_HT st2 @ [j2], fer := fer st2 + 1\<rparr>)))
               else
                 (let jj = find_junction st i1
                  in case update_at jj (push_branch (int branch)) (Jv_HT st) of Inl e \<Rightarrow> Inl e | Inr js \<Rightarrow>
                     (case update_at jj (add_value (Rb branch)) js of Inl e \<Rightarrow> Inl e | Inr js' \<Rightarrow>
                        Inr (st\<lparr>Jv_HT := js'\<rparr>))))
         else Inr st)"

text \<open>One pass of the loop over the convexes (lines 147--382), apart from the two messages
  on the error stream: the endpoints are read, then treated in turn.\<close>

definition process_convex :: "(nat \<Rightarrow> real) \<Rightarrow> mesh \<Rightarrow> nat \<Rightarrow> nat \<Rightarrow> builder \<Rightarrow> failure + builder" where
  "process_convex Rb msh nbr cv st =
     (case elem_at (ind_points_of_convex msh cv) (ind_points_of_face msh cv 1) of Inl e \<Rightarrow> Inl e | Inr i0 \<Rightarrow>
      case elem_at (ind_points_of_convex msh cv) (ind_points_of_face msh cv 0) of Inl e \<Rightarrow> Inl e | Inr i1 \<Rightarrow>
      case process_i0 Rb msh nbr cv i0 st of Inl e \<Rightarrow> Inl e | Inr st1 \<Rightarrow>
        process_i1 Rb msh nbr cv i1 st1)"

text \<open>The messages written to \<open>cerr\<close> at the head of the loop body (lines 150--153); nothing
  else happens there.\<close>

datatype diagnostic = MoreThan2Vertices nat | MoreThan2Faces nat

definition diagnostics :: "mesh \<Rightarrow> nat \<Rightarrow> diagnostic list" where
  "diagnostics msh cv =
     (if nb_points msh cv > 2 then [MoreThan2Vertices cv] else [])
     @ (if nb_faces msh cv > 2 then [MoreThan2Faces cv] else [])"

text \<open>The loop: the error stream up to the point where the run stops, and the outcome.\<close>

fun convex_loop :: "(nat \<Rightarrow> real) \<Rightarrow> mesh \<Rightarrow> nat \<Rightarrow> nat list \<Rightarrow> builder \<Rightarrow> diagnostic list \<times> (failure + builder)" where
  "convex_loop Rb msh nbr [] st = ([], Inr st)"
| "convex_loop Rb msh nbr (cv # cvs) st =
     (case process_convex Rb msh nbr cv st of
        Inl e \<Rightarrow> (diagnostics msh cv, Inl e)
      | Inr st' \<Rightarrow> (let r = convex_loop Rb msh nbr cvs st' in (diagnostics msh cv @ fst r, snd r)))"

text \<open>The function: \<open>Jv_HT\<close> is cleared, the counters are zeroed, \<open>fer\<close> starts at
  \<open>nb_branches\<close>, which must not be a region of the mesh. \<open>bcs\<close> is \<open>BCv_HT\<close> as the mesh
  import left it (the boundary nodes registered beforehand).\<close>

definition build_vessel_boundary :: "(nat \<Rightarrow> real) \<Rightarrow> mesh \<Rightarrow> nat \<Rightarrow> node list \<Rightarrow> diagnostic list \<times> (failure + builder)" where
  "build_vessel_boundary Rb msh nbr bcs =
     (let st = \<lparr>new_regions = [], fer = nbr, BCv_HT = bcs, Jv_HT = [], junctions = {}, extrema = {},
                nb_extrema = 0, nb_junctions = 0\<rparr>
      in if has_region msh st (fer st) then ([], Inl (Assertion ''Overload in meshv region assembling!''))
         else convex_loop Rb msh nbr (convex_index msh) st)"

text \<open>Concrete meshes used below. Every convex is oriented from its first to its second
  point; face 1 of a segment is its first point and face 0 its second.

  \<open>msh_Y\<close>: a Y-network of three one-element branches on the vertices 0 to 3, the
  inflow branch 0 running from vertex 0 to the junction vertex 1, the branches 1 and 2
  from the junction to the vertices 2 and 3. \<open>msh_Y0\<close>: the same network with the
  numbers of the branches 0 and 1 exchanged, so that branch 0 leaves the junction.
  \<open>bcs_Y\<close>: the three extremal vertices registered as boundary nodes.\<close>

definition msh_Y :: mesh where
  "msh_Y = \<lparr>convex_index = [0, 1, 2], nb_points = (\<lambda>cv. 2), nb_faces = (\<lambda>cv. 2),
     ind_points_of_convex = (\<lambda>cv. if cv = 0 then [0, 1] else if cv = 1 then [1, 2] else [1, 3]),
     ind_points_of_face = (\<lambda>cv f. if f = 0 then 1 else 0),
     convex_to_point = (\<lambda>p. if p = 0 then [0] else if p = 1 then [0, 1, 2] else if p = 2 then [1] else [2]),
     region_convexes = (\<lambda>r. if r = 0 then Some [0] else if r = 1 then Some [1]
                            else if r = 2 then Some [2] else None)\<rparr>"

definition msh_Y0 :: mesh where
  "msh_Y0 = msh_Y\<lparr>region_convexes := (\<lambda>r. if r = 0 then Some [1] else if r = 1 then Some [0]
                            else if r = 2 then Some [2] else None)\<rparr>"

definition bcs_Y :: "node list" where
  "bcs_Y = [new_node ''DIR'' 1 0 0, new_node ''DIR'' 0 2 0, new_node ''DIR'' 0 3 0]"

text \<open>\<open>msh_tri\<close>: one element with three points and three faces, in branch 0, its first
  two vertices extremal. \<open>msh_lost\<close>: one segment that no branch region contains (region
  0 exists and is empty). \<open>bcs_seg\<close>: the vertex 0 registered as boundary node.\<close>

definition msh_tri :: mesh where
  "msh_tri = \<lparr>convex_index = [0], nb_points = (\<lambda>cv. 3), nb_faces = (\<lambda>cv. 3),
     ind_points_of_convex = (\<lambda>cv. [0, 1, 2]),
     ind_points_of_face = (\<lambda>cv f. if f = 0 then 1 else 0),
     convex_to_point = (\<lambda>p. [0]),
     region_convexes = (\<lambda>r. if r = 0 then Some [0] else None)\<rparr>"

definition msh_lost :: mesh where
  "msh_lost = \<lparr>convex_index = [0], nb_points = (\<lambda>cv. 2), nb_faces = (\<lambda>cv. 2),
     ind_points_of_convex = (\<lambda>cv. [0, 1]),
     ind_points_of_face = (\<lambda>cv f. if f = 0 then 1 else 0),
     convex_to_point = (\<lambda>p. [0]),
     region_convexes = (\<lambda>r. if r = 0 then Some [] else None)\<rparr>"

definition bcs_seg :: "node list" where
  "bcs_seg = [new_node ''DIR'' 1 0 0]"

text \<open>The weight a junction should carry according to its branch list: the radii of the
  listed branches, accumulated from 0 in the order of the list.\<close>

definition listed_radii :: "(nat \<Rightarrow> real) \<Rightarrow> node \<Rightarrow> real" where
  "listed_radii Rb n = foldl (+) 0 (map (\<lambda>b. Rb (nat \<bar>b\<bar>)) (n_branches n))"


section \<open>Properties of the vessel compliance model\<close>

lemma e_const_pos: "0 < e_const"
  unfolding e_const_def by simp

lemma e_const_ne1: "e_const \<noteq> 1"
  unfolding e_const_def by simp

lemma pow_e_pos: "0 < pow_e x"
  using e_const_pos by (simp add: pow_e_def)

lemma pow_e_inj: "pow_e x = pow_e y \<longleftrightarrow> x = y"
  unfolding pow_e_def using e_const_pos e_const_ne1 by (simp add: powr_inj)

text \<open>The nested loops are one loop over the sequence of visits.\<close>

lemma fold_option_append:
  "fold_option f (xs @ ys) s = (case fold_option f xs s of None \<Rightarrow> None | Some s' \<Rightarrow> fold_option f ys s')"
  by (induction xs arbitrary: s) (simp_all split: option.splits)

lemma fold_option_concat_map:
  "fold_option f (concat (map g xs)) s = fold_option (\<lambda>x. fold_option f (g x)) xs s"
  by (induction xs arbitrary: s) (simp_all add: fold_option_append split: option.splits)

lemma fold_option_map: "fold_option f (map h xs) s = fold_option (\<lambda>x. f (h x)) xs s"
  by (induction xs arbitrary: s) (simp_all split: option.splits)

lemma vcv_visits:
  "vessel_conductivity_vec inp branches sc = Some sc' \<Longrightarrow>
     fold_option (visit_dof inp) (visits branches) sc = Some sc'"
proof -
  have el: "update_element inp i = (\<lambda>el. fold_option (visit_dof inp) (map (\<lambda>j. (i, snd el, j)) (fst el)))" for i
    by (intro ext) (simp add: update_element_def fold_option_map visit_dof_def)
  have br: "update_branch inp = (\<lambda>ib.
      fold_option (visit_dof inp) (concat (map (\<lambda>el. map (\<lambda>j. (fst ib, snd el, j)) (fst el)) (snd ib))))"
    by (intro ext) (simp add: update_branch_def el fold_option_concat_map)
  assume "vessel_conductivity_vec inp branches sc = Some sc'"
  then have "fold_option (update_branch inp) (enumerate 0 branches) sc = Some sc'"
    by (simp add: vessel_conductivity_vec_def split: option.splits)
  then show ?thesis
    by (simp add: visits_def fold_option_concat_map br)
qed

text \<open>A visit of \<open>j\<close> overwrites the four values at \<open>j\<close>, a visit of another degree of
  freedom leaves them alone; so whatever holds of the outcome of every visit of \<open>j\<close> holds
  of what is stored at \<open>j\<close> in the end, provided \<open>j\<close> is visited at all.\<close>

lemma stored_visit_same:
  "visit_dof inp v sc = Some sc' \<Longrightarrow> snd (snd v) = j \<Longrightarrow>
     dof_geom inp (fst v) (fst (snd v)) j = Some (stored sc' j)"
  by (auto simp: stored_def visit_dof_def update_dof_def Let_def split: option.splits)

lemma stored_visit_other:
  "visit_dof inp v sc = Some sc' \<Longrightarrow> snd (snd v) \<noteq> j \<Longrightarrow> stored sc' j = stored sc j"
  by (auto simp: stored_def visit_dof_def update_dof_def Let_def split: option.splits)

lemma stored_fold:
  assumes "fold_option (visit_dof inp) vs sc = Some sc'"
      and "\<exists>v \<in> set vs. snd (snd v) = j"
      and "\<And>v g. v \<in> set vs \<Longrightarrow> snd (snd v) = j \<Longrightarrow>
              dof_geom inp (fst v) (fst (snd v)) j = Some g \<Longrightarrow> Q g"
  shows "Q (stored sc' j)"
  using assms
proof (induction vs arbitrary: sc' rule: rev_induct)
  case Nil
  then show ?case by simp
next
  case (snoc v vs)
  from snoc.prems(1) obtain s where s: "fold_option (visit_dof inp) vs sc = Some s"
    and v: "visit_dof inp v s = Some sc'"
    by (auto simp: fold_option_append split: option.splits)
  show ?case
  proof (cases "snd (snd v) = j")
    case True
    from stored_visit_same[OF v True] snoc.prems(3)[of v "stored sc' j"] True show ?thesis by simp
  next
    case False
    with snoc.prems(2) have ex: "\<exists>v \<in> set vs. snd (snd v) = j" by auto
    have "Q (stored s j)"
    proof (rule snoc.IH[OF s ex])
      fix w g assume "w \<in> set vs" "snd (snd w) = j" "dof_geom inp (fst w) (fst (snd w)) j = Some g"
      then show "Q g" using snoc.prems(3)[of w g] by simp
    qed
    with stored_visit_other[OF v False] show ?thesis by simp
  qed
qed

lemma regime_of_Ru: "regime_of prm Ei Ru hu p_int p_ext = Some r \<Longrightarrow> Ru \<noteq> 0"
  by (auto simp: regime_of_def split: if_splits)

lemma dof_geom_buckled:
  assumes "dof_geom inp i loc j = Some g" and "dof_regime inp i j = Some (Buckled p)"
  shows "g = buckled (c_Ru inp j) p" and "c_Ru inp j \<noteq> 0"
  using assms
  by (auto simp: dof_geom_def dof_regime_def vessel_dof_def split: option.splits dest: regime_of_Ru)

lemma dof_geom_circular:
  assumes "dof_geom inp i loc j = Some g" and "circular (dof_regime inp i j)"
  shows "g_R g \<noteq> 0 \<and> g_area g = pi * g_R g * g_R g \<and> g_per g = 2 * pi * g_R g"
proof -
  from assms(2) consider "dof_regime inp i j = Some Arteriole" | "dof_regime inp i j = Some CircularVenule"
    by (cases "dof_regime inp i j" rule: circular.cases) auto
  then show ?thesis
  proof cases
    case 1
    with assms(1) show ?thesis
      by (auto simp: dof_geom_def dof_regime_def vessel_dof_def arteriole_def arteriole_zero_divisor_def Let_def
          split: option.splits if_splits)
  next
    case 2
    with assms(1) show ?thesis
      by (auto simp: dof_geom_def dof_regime_def vessel_dof_def venule_circular_def venule_zero_divisor_def Let_def
          split: option.splits if_splits)
  qed
qed

subsection \<open>Collapse clamp\<close>

lemma buckled_clamped_value:
  "5 \<le> p \<Longrightarrow> g_cond (buckled Rtmp p) =
     (15.95 * pow_e (- 0.545 * 5) * Rtmp * Rtmp) * (15.95 * pow_e (- 0.545 * 5) * Rtmp * Rtmp)
        / Rtmp / Rtmp / Rtmp / Rtmp / (69.56 * pow_e (- 1.74 * 5))"
  unfolding buckled_def Let_def by simp

text \<open>The network with one element and one degree of freedom, at \<open>p_adim = 96\<close>.\<close>

lemma visits_single: "visits [[([0], 0)]] = [(0, 0, 0)]"
  by (simp add: visits_def)

lemma Ei_collapsed: "Ei_of inp_collapsed i = Some 1"
  by (simp add: Ei_of_def E_adim_def inp_collapsed_def prm0_def)

lemma regime_collapsed: "dof_regime inp_collapsed i j = Some (Buckled 96)"
  unfolding dof_regime_def Ei_collapsed
  by (simp add: regime_of_def threshold_def p_adim_of_def inp_collapsed_def prm0_def Let_def)

lemma run_collapsed: "\<exists>sc'. vessel_conductivity_vec inp_collapsed [[([0], 0)]] sc0 = Some sc'"
proof -
  have "regime_of prm0 1 1 (1 / 20) 0 (1 / 1000) = Some (Buckled 96)"
    using regime_collapsed[of 0 0] unfolding dof_regime_def Ei_collapsed
    by (simp add: inp_collapsed_def)
  then have "dof_geom inp_collapsed 0 0 0 = Some (buckled 1 96)"
    unfolding dof_geom_def Ei_collapsed by (simp add: vessel_dof_def inp_collapsed_def)
  then show ?thesis
    by (simp add: vessel_conductivity_vec_def update_branch_def update_element_def update_dof_def
        E_adim_def inp_collapsed_def prm0_def Let_def)
qed


text \<open>
  Claim C3. In the buckled-venule regime of the compliance model, for every degree of
  freedom \<open>j\<close> the loops visit whose dimensionless pressure \<open>p_adim\<close> exceeds 5, the
  conductance returned in \<open>cond[j]\<close> is exactly the conductance obtained at
  \<open>p_adim = 5\<close> for the same undeformed radius: the exponential area law and the
  exponential resistance-integral law are evaluated at the clamped value 5, whatever the
  value of \<open>p_adim\<close> beyond it.
\<close>

theorem collapse_clamp:
  assumes run: "vessel_conductivity_vec inp branches sc = Some sc'"
      and visited: "\<exists>v \<in> set (visits branches). snd (snd v) = j"
      and regime: "\<forall>v \<in> set (visits branches). snd (snd v) = j \<longrightarrow> buckled_above (dof_regime inp (fst v) j)"
  shows "snd sc' j =
           (15.95 * pow_e (- 0.545 * 5) * c_Ru inp j * c_Ru inp j)
             * (15.95 * pow_e (- 0.545 * 5) * c_Ru inp j * c_Ru inp j)
             / c_Ru inp j / c_Ru inp j / c_Ru inp j / c_Ru inp j / (69.56 * pow_e (- 1.74 * 5))
       \<and> snd sc' j = g_cond (buckled (c_Ru inp j) 5)"
proof -
  let ?val = "(15.95 * pow_e (- 0.545 * 5) * c_Ru inp j * c_Ru inp j)
             * (15.95 * pow_e (- 0.545 * 5) * c_Ru inp j * c_Ru inp j)
             / c_Ru inp j / c_Ru inp j / c_Ru inp j / c_Ru inp j / (69.56 * pow_e (- 1.74 * 5))"
  have "g_cond (stored sc' j) = ?val"
  proof (rule stored_fold[where Q = "\<lambda>g. g_cond g = ?val", OF vcv_visits[OF run] visited])
    fix v g assume v: "v \<in> set (visits branches)" "snd (snd v) = j"
      and g: "dof_geom inp (fst v) (fst (snd v)) j = Some g"
    from regime v have "buckled_above (dof_regime inp (fst v) j)" by blast
    then obtain p where p: "dof_regime inp (fst v) j = Some (Buckled p)" and "5 < p"
      by (cases "dof_regime inp (fst v) j" rule: buckled_above.cases) auto
    with dof_geom_buckled(1)[OF g p] show "g_cond g = ?val"
      by (simp add: buckled_clamped_value)
  qed
  moreover have "g_cond (buckled (c_Ru inp j) 5) = ?val"
    by (rule buckled_clamped_value) simp
  ultimately show ?thesis by (simp add: stored_def)
qed

theorem collapse_clamp_witness:
  "\<exists>sc'. vessel_conductivity_vec inp_collapsed [[([0], 0)]] sc0 = Some sc'
     \<and> dof_regime inp_collapsed 0 0 = Some (Buckled 96)
     \<and> snd sc' 0 = (15.95 * pow_e (- 0.545 * 5) * 1 * 1) * (15.95 * pow_e (- 0.545 * 5) * 1 * 1)
                      / 1 / 1 / 1 / 1 / (69.56 * pow_e (- 1.74 * 5))"
proof -
  from run_collapsed obtain sc' where run: "vessel_conductivity_vec inp_collapsed [[([0], 0)]] sc0 = Some sc'"
    by blast
  have v: "\<exists>v \<in> set (visits [[([0], 0)]]). snd (snd v) = 0"
    by (simp add: visits_single)
  have r: "\<forall>v \<in> set (visits [[([0], 0)]]). snd (snd v) = 0 \<longrightarrow> buckled_above (dof_regime inp_collapsed (fst v) 0)"
    by (simp add: regime_collapsed)
  have Ru: "c_Ru inp_collapsed 0 = 1" by (simp add: inp_collapsed_def)
  from collapse_clamp[OF run v r, THEN conjunct1]
  have "snd sc' 0 = (15.95 * pow_e (- 0.545 * 5) * 1 * 1) * (15.95 * pow_e (- 0.545 * 5) * 1 * 1)
                      / 1 / 1 / 1 / 1 / (69.56 * pow_e (- 1.74 * 5))"
    unfolding Ru .
  with run regime_collapsed show ?thesis by blast
qed

subsection \<open>The regime switch at ratio 0.1\<close>

lemma poiseuille_cancel:
  "R \<noteq> 0 \<Longrightarrow> k * (pi * R * R) * (pi * R * R) * 2 * g / pi / R / R / R / R * t = k * 2 * pi * g * t"
  for R k g t :: real
  by (simp add: field_simps)

lemma circular_cond_closed:
  "R \<noteq> 0 \<Longrightarrow> circular_cond prm curv R (pi * R * R) =
     w_U prm / w_P prm / w_d prm * 2 * pi * (w_Gamma prm + 2) * (1 + curv * curv * R * R)"
  unfolding circular_cond_def by (rule poiseuille_cancel)

lemma arteriole_R_ex: "arteriole_R prm0 1 1 (1/10) (1/2) (1/2) = 1/2"
  unfolding arteriole_R_def Let_def prm0_def by simp

lemma venule_R_ex: "venule_circular_R prm0 1 1 (1/10) (1/2) (1/2) = 1"
  unfolding venule_circular_R_def Let_def prm0_def by simp

lemma arteriole_cond_ex: "g_cond (arteriole prm0 1 1 1 (1/10) (1/2) (1/2)) = 10 * pi"
  unfolding arteriole_def Let_def arteriole_R_ex
  by (simp add: circular_cond_def prm0_def)

lemma venule_cond_ex: "g_cond (venule_circular prm0 1 1 1 (1/10) (1/2) (1/2)) = 16 * pi"
  unfolding venule_circular_def Let_def venule_R_ex
  by (simp add: circular_cond_def prm0_def)

text \<open>
  Claim C4, as stated: at thickness-to-radius ratio exactly \<open>0.1\<close> the arteriole formula
  and the circular-venule formula give the same conductance for all pressures, radii and
  thicknesses. This fails: with \<open>Ru = 1\<close>, \<open>hu = 0.1\<close>, \<open>p_int = p_ext = 1/2\<close>,
  \<open>nu = 0\<close>, \<open>Ei = 1\<close> and curvature \<open>1\<close> the arteriole formula deforms the radius to
  \<open>1/2\<close> and gives \<open>10 pi\<close>, the venule formula keeps the radius \<open>1\<close> and gives
  \<open>16 pi\<close>.
\<close>

theorem regime_switch_gap:
  "(1 / 10) / (1::real) = 0.1
   \<and> g_cond (arteriole prm0 1 1 1 (1/10) (1/2) (1/2)) = 10 * pi
   \<and> g_cond (venule_circular prm0 1 1 1 (1/10) (1/2) (1/2)) = 16 * pi
   \<and> \<bar>g_cond (arteriole prm0 1 1 1 (1/10) (1/2) (1/2))
       - g_cond (venule_circular prm0 1 1 1 (1/10) (1/2) (1/2))\<bar> \<ge> 12"
proof -
  have "\<bar>10 * pi - 16 * pi\<bar> = 6 * pi" by simp
  moreover have "6 * pi \<ge> 12" using pi_ge_two by simp
  ultimately show ?thesis by (simp add: arteriole_cond_ex venule_cond_ex)
qed

text \<open>
  Claim C4, amended: at thickness-to-radius ratio exactly \<open>0.1\<close>, for all pressures,
  undeformed radius and wall thickness for which both formulas give a non-zero deformed
  radius, the arteriole and the circular-venule conductance coincide when the local
  curvature is zero or the two deformed radii have the same magnitude. (The two
  conductances are the same function of the deformed radius, which enters only through
  the curvature factor; the two deformed radii differ in general.)
\<close>

theorem regime_switch_agreement:
  assumes "hu / Ru = 0.1"
      and "arteriole_R prm Ei Ru hu p_int p_ext \<noteq> 0"
      and "venule_circular_R prm Ei Ru hu p_int p_ext \<noteq> 0"
      and "curv = 0 \<or> \<bar>arteriole_R prm Ei Ru hu p_int p_ext\<bar> = \<bar>venule_circular_R prm Ei Ru hu p_int p_ext\<bar>"
  shows "g_cond (arteriole prm Ei curv Ru hu p_int p_ext) = g_cond (venule_circular prm Ei curv Ru hu p_int p_ext)"
proof -
  let ?a = "arteriole_R prm Ei Ru hu p_int p_ext" and ?v = "venule_circular_R prm Ei Ru hu p_int p_ext"
  from assms(4) have "curv * curv * ?a * ?a = curv * curv * ?v * ?v"
  proof
    assume "curv = 0" then show ?thesis by simp
  next
    assume "\<bar>?a\<bar> = \<bar>?v\<bar>"
    then have "?a * ?a = ?v * ?v" by (metis abs_mult_self_eq)
    then show ?thesis by (simp add: mult.assoc)
  qed
  then show ?thesis
    unfolding arteriole_def venule_circular_def Let_def
    by (simp add: circular_cond_closed assms(2,3))
qed

theorem regime_switch_agreement_witness:
  "(1 / 10) / (1::real) = 0.1
   \<and> arteriole_R prm0 1 1 (1/10) (1/2) (1/2) = 1/2
   \<and> venule_circular_R prm0 1 1 (1/10) (1/2) (1/2) = 1
   \<and> g_cond (arteriole prm0 1 0 1 (1/10) (1/2) (1/2)) = g_cond (venule_circular prm0 1 0 1 (1/10) (1/2) (1/2))"
proof -
  have r: "(1 / 10) / (1::real) = 0.1" by simp
  have a: "arteriole_R prm0 1 1 (1/10) (1/2) (1/2) \<noteq> 0" by (simp add: arteriole_R_ex)
  have v: "venule_circular_R prm0 1 1 (1/10) (1/2) (1/2) \<noteq> 0" by (simp add: venule_R_ex)
  have "g_cond (arteriole prm0 1 0 1 (1/10) (1/2) (1/2)) = g_cond (venule_circular prm0 1 0 1 (1/10) (1/2) (1/2))"
    by (rule regime_switch_agreement[OF r a v]) simp
  then show ?thesis using r by (simp add: arteriole_R_ex venule_R_ex)
qed


subsection \<open>The stored radius\<close>

lemma buckled_fields:
  "g_R (buckled Rtmp p) = 15.95 * pow_e (- 0.545 * p) * Rtmp * Rtmp / (2 * pi * Rtmp)"
  "g_per (buckled Rtmp p) = 2 * pi * Rtmp"
  "g_area (buckled Rtmp p) = 15.95 * pow_e (- 0.545 * (if p < 5 then p else 5)) * Rtmp * Rtmp"
  unfolding buckled_def Let_def by simp_all

lemma quot_cancel: "c \<noteq> 0 \<Longrightarrow> (a * c = b * c) = (a = b)" for a b c :: real
  by simp

lemma buckled_radius_relation:
  assumes "Rtmp \<noteq> 0"
  shows "(g_R (buckled Rtmp p) = g_area (buckled Rtmp p) / g_per (buckled Rtmp p)) \<longleftrightarrow> p \<le> 5"
proof -
  let ?q = "if p < 5 then p else 5"
  have c: "Rtmp * Rtmp / (2 * pi * Rtmp) \<noteq> 0" using assms by simp
  have "(g_R (buckled Rtmp p) = g_area (buckled Rtmp p) / g_per (buckled Rtmp p))
        \<longleftrightarrow> (15.95 * pow_e (- 0.545 * p)) * (Rtmp * Rtmp / (2 * pi * Rtmp))
            = (15.95 * pow_e (- 0.545 * ?q)) * (Rtmp * Rtmp / (2 * pi * Rtmp))"
    unfolding buckled_fields by (simp only: mult.assoc times_divide_eq_right)
  also have "\<dots> \<longleftrightarrow> 15.95 * pow_e (- 0.545 * p) = 15.95 * pow_e (- 0.545 * ?q)"
    by (rule quot_cancel[OF c])
  also have "\<dots> \<longleftrightarrow> pow_e (- 0.545 * p) = pow_e (- 0.545 * ?q)" by simp
  also have "\<dots> \<longleftrightarrow> p = ?q" unfolding pow_e_inj by simp
  also have "\<dots> \<longleftrightarrow> p \<le> 5" by auto
  finally show ?thesis .
qed

lemma circular_radius_relation:
  assumes "g_R g \<noteq> 0 \<and> g_area g = pi * g_R g * g_R g \<and> g_per g = 2 * pi * g_R g"
  shows "g_area g / g_per g = g_R g / 2" and "g_R g \<noteq> g_area g / g_per g"
proof -
  from assms show h: "g_area g / g_per g = g_R g / 2" by simp
  from assms show "g_R g \<noteq> g_area g / g_per g" unfolding h by simp
qed

text \<open>The two other one-element networks.\<close>

lemma Ei_mild: "Ei_of inp_buckled_mild i = Some 1"
  by (simp add: Ei_of_def E_adim_def inp_buckled_mild_def inp_collapsed_def prm0_def)

lemma regime_mild: "dof_regime inp_buckled_mild i j = Some (Buckled (96 / 25))"
  unfolding dof_regime_def Ei_mild
  by (simp add: regime_of_def threshold_def p_adim_of_def inp_buckled_mild_def inp_collapsed_def prm0_def Let_def)

lemma run_mild: "\<exists>sc'. vessel_conductivity_vec inp_buckled_mild [[([0], 0)]] sc0 = Some sc'"
proof -
  have "regime_of prm0 1 1 (1 / 20) 0 (1 / 25000) = Some (Buckled (96 / 25))"
    using regime_mild[of 0 0] unfolding dof_regime_def Ei_mild
    by (simp add: inp_buckled_mild_def inp_collapsed_def)
  then have "dof_geom inp_buckled_mild 0 0 0 = Some (buckled 1 (96 / 25))"
    unfolding dof_geom_def Ei_mild by (simp add: vessel_dof_def inp_buckled_mild_def inp_collapsed_def)
  then show ?thesis
    by (simp add: vessel_conductivity_vec_def update_branch_def update_element_def update_dof_def
        E_adim_def inp_buckled_mild_def inp_collapsed_def prm0_def Let_def)
qed

lemma Ei_arteriole: "Ei_of inp_arteriole i = Some 1"
  by (simp add: Ei_of_def E_adim_def inp_arteriole_def prm0_def)

lemma regime_arteriole: "dof_regime inp_arteriole i j = Some Arteriole"
  unfolding dof_regime_def Ei_arteriole
  by (simp add: regime_of_def inp_arteriole_def prm0_def Let_def)

lemma geom_arteriole: "dof_geom inp_arteriole 0 0 0 = Some (arteriole prm0 1 1 1 (1/10) (1/2) (1/2))"
proof -
  have "regime_of prm0 1 1 (1 / 10) (1 / 2) (1 / 2) = Some Arteriole"
    using regime_arteriole[of 0 0] unfolding dof_regime_def Ei_arteriole
    by (simp add: inp_arteriole_def)
  moreover have "\<not> arteriole_zero_divisor prm0 1 1 (1 / 10) (1 / 2) (1 / 2)"
    unfolding arteriole_zero_divisor_def arteriole_R_ex by (simp add: prm0_def)
  ultimately show ?thesis
    unfolding dof_geom_def Ei_arteriole by (simp add: vessel_dof_def inp_arteriole_def)
qed

lemma run_arteriole:
  "\<exists>sc'. vessel_conductivity_vec inp_arteriole [[([0], 0)]] sc0 = Some sc'
      \<and> stored sc' 0 = arteriole prm0 1 1 1 (1/10) (1/2) (1/2)"
  using geom_arteriole
  by (simp add: vessel_conductivity_vec_def update_branch_def update_element_def update_dof_def
      E_adim_def stored_def inp_arteriole_def prm0_def Let_def)

text \<open>
  Claim C9, as stated: the relation "stored radius = stored area / stored perimeter" holds
  for every regime outcome of the compliance update other than the buckled venule with
  \<open>p_adim > 5\<close>. This fails in the circular regimes, where the stored radius is the
  geometric radius: for the one-element network \<open>inp_arteriole\<close> (ratio \<open>0.1\<close>, arteriole
  branch, no division by zero) the store holds radius \<open>1/2\<close>, while area / perimeter is
  \<open>1/4\<close>.
\<close>

theorem circular_radius_not_hydraulic:
  "\<exists>sc'. vessel_conductivity_vec inp_arteriole [[([0], 0)]] sc0 = Some sc'
     \<and> dof_regime inp_arteriole 0 0 = Some Arteriole
     \<and> R_v (fst sc') 0 = 1 / 2
     \<and> CSarea_v (fst sc') 0 / CSper_v (fst sc') 0 = 1 / 4"
proof -
  from run_arteriole obtain sc' where run: "vessel_conductivity_vec inp_arteriole [[([0], 0)]] sc0 = Some sc'"
    and st: "stored sc' 0 = arteriole prm0 1 1 1 (1/10) (1/2) (1/2)"
    by blast
  have R: "R_v (fst sc') 0 = g_R (stored sc' 0)"
    and A: "CSarea_v (fst sc') 0 = g_area (stored sc' 0)"
    and P: "CSper_v (fst sc') 0 = g_per (stored sc' 0)"
    by (simp_all add: stored_def)
  have "g_R (arteriole prm0 1 1 1 (1/10) (1/2) (1/2)) = 1 / 2"
    and "g_area (arteriole prm0 1 1 1 (1/10) (1/2) (1/2)) = pi / 4"
    and "g_per (arteriole prm0 1 1 1 (1/10) (1/2) (1/2)) = pi"
    unfolding arteriole_def Let_def arteriole_R_ex by simp_all
  then have "R_v (fst sc') 0 = 1 / 2 \<and> CSarea_v (fst sc') 0 / CSper_v (fst sc') 0 = 1 / 4"
    unfolding R A P st by simp
  with run regime_arteriole show ?thesis by blast
qed

text \<open>
  Claim C9, amended: whenever the compliance update runs without a division by zero, at
  every degree of freedom \<open>j\<close> it visits the ParameterStore after the update satisfies:
  if \<open>j\<close> is in the buckled-venule regime with \<open>p_adim > 5\<close>, the stored radius differs
  from stored area / stored perimeter (the stored radius is the hydraulic radius computed
  from the unclamped area, the stored area is recomputed at the clamped \<open>p_adim = 5\<close>);
  if \<open>j\<close> is in the buckled-venule regime with \<open>p_adim \<le> 5\<close>, the stored radius equals
  stored area / stored perimeter; and if \<open>j\<close> is in a circular regime (arteriole or
  circular venule), stored area / stored perimeter is half the stored radius, which is not
  zero, so the relation does not hold there either. (The regime of \<open>j\<close> is taken at every
  visit of \<open>j\<close>.)
\<close>

theorem stored_radius_mismatch:
  assumes run: "vessel_conductivity_vec inp branches sc = Some sc'"
      and visited: "\<exists>v \<in> set (visits branches). snd (snd v) = j"
  shows "((\<forall>v \<in> set (visits branches). snd (snd v) = j \<longrightarrow> buckled_above (dof_regime inp (fst v) j))
            \<longrightarrow> R_v (fst sc') j \<noteq> CSarea_v (fst sc') j / CSper_v (fst sc') j)
       \<and> ((\<forall>v \<in> set (visits branches). snd (snd v) = j \<longrightarrow> buckled_upto (dof_regime inp (fst v) j))
            \<longrightarrow> R_v (fst sc') j = CSarea_v (fst sc') j / CSper_v (fst sc') j)
       \<and> ((\<forall>v \<in> set (visits branches). snd (snd v) = j \<longrightarrow> circular (dof_regime inp (fst v) j))
            \<longrightarrow> CSarea_v (fst sc') j / CSper_v (fst sc') j = R_v (fst sc') j / 2
              \<and> R_v (fst sc') j \<noteq> CSarea_v (fst sc') j / CSper_v (fst sc') j)"
proof -
  have sel: "R_v (fst sc') j = g_R (stored sc' j)" "CSarea_v (fst sc') j = g_area (stored sc' j)"
    "CSper_v (fst sc') j = g_per (stored sc' j)"
    by (simp_all add: stored_def)
  note fold = stored_fold[OF vcv_visits[OF run] visited]
  have above: "g_R (stored sc' j) \<noteq> g_area (stored sc' j) / g_per (stored sc' j)"
    if h: "\<forall>v \<in> set (visits branches). snd (snd v) = j \<longrightarrow> buckled_above (dof_regime inp (fst v) j)"
  proof (rule fold[where Q = "\<lambda>g. g_R g \<noteq> g_area g / g_per g"])
    fix v g assume v: "v \<in> set (visits branches)" "snd (snd v) = j"
      and g: "dof_geom inp (fst v) (fst (snd v)) j = Some g"
    from h v have "buckled_above (dof_regime inp (fst v) j)" by blast
    then obtain p where p: "dof_regime inp (fst v) j = Some (Buckled p)" and p5: "\<not> p \<le> 5"
      by (cases "dof_regime inp (fst v) j" rule: buckled_above.cases) auto
    from p5 show "g_R g \<noteq> g_area g / g_per g"
      unfolding dof_geom_buckled(1)[OF g p] buckled_radius_relation[OF dof_geom_buckled(2)[OF g p]] .
  qed
  have upto: "g_R (stored sc' j) = g_area (stored sc' j) / g_per (stored sc' j)"
    if h: "\<forall>v \<in> set (visits branches). snd (snd v) = j \<longrightarrow> buckled_upto (dof_regime inp (fst v) j)"
  proof (rule fold[where Q = "\<lambda>g. g_R g = g_area g / g_per g"])
    fix v g assume v: "v \<in> set (visits branches)" "snd (snd v) = j"
      and g: "dof_geom inp (fst v) (fst (snd v)) j = Some g"
    from h v have "buckled_upto (dof_regime inp (fst v) j)" by blast
    then obtain p where p: "dof_regime inp (fst v) j = Some (Buckled p)" and p5: "p \<le> 5"
      by (cases "dof_regime inp (fst v) j" rule: buckled_upto.cases) auto
    from p5 show "g_R g = g_area g / g_per g"
      unfolding dof_geom_buckled(1)[OF g p] buckled_radius_relation[OF dof_geom_buckled(2)[OF g p]] .
  qed
  have circ: "g_area (stored sc' j) / g_per (stored sc' j) = g_R (stored sc' j) / 2
              \<and> g_R (stored sc' j) \<noteq> g_area (stored sc' j) / g_per (stored sc' j)"
    if h: "\<forall>v \<in> set (visits branches). snd (snd v) = j \<longrightarrow> circular (dof_regime inp (fst v) j)"
  proof (rule fold[where Q = "\<lambda>g. g_area g / g_per g = g_R g / 2 \<and> g_R g \<noteq> g_area g / g_per g"])
    fix v g assume v: "v \<in> set (visits branches)" "snd (snd v) = j"
      and g: "dof_geom inp (fst v) (fst (snd v)) j = Some g"
    from h v have "circular (dof_regime inp (fst v) j)" by blast
    from dof_geom_circular[OF g this]
    show "g_area g / g_per g = g_R g / 2 \<and> g_R g \<noteq> g_area g / g_per g"
      using circular_radius_relation by blast
  qed
  show ?thesis unfolding sel using above upto circ by blast
qed

theorem stored_radius_mismatch_witness:
  "(\<exists>sc'. vessel_conductivity_vec inp_collapsed [[([0], 0)]] sc0 = Some sc'
      \<and> dof_regime inp_collapsed 0 0 = Some (Buckled 96)
      \<and> R_v (fst sc') 0 \<noteq> CSarea_v (fst sc') 0 / CSper_v (fst sc') 0)
   \<and> (\<exists>sc'. vessel_conductivity_vec inp_buckled_mild [[([0], 0)]] sc0 = Some sc'
      \<and> dof_regime inp_buckled_mild 0 0 = Some (Buckled (96 / 25))
      \<and> R_v (fst sc') 0 = CSarea_v (fst sc') 0 / CSper_v (fst sc') 0)
   \<and> (\<exists>sc'. vessel_conductivity_vec inp_arteriole [[([0], 0)]] sc0 = Some sc'
      \<and> dof_regime inp_arteriole 0 0 = Some Arteriole
      \<and> CSarea_v (fst sc') 0 / CSper_v (fst sc') 0 = R_v (fst sc') 0 / 2
      \<and> R_v (fst sc') 0 \<noteq> CSarea_v (fst sc') 0 / CSper_v (fst sc') 0)"
proof -
  have v: "\<exists>v \<in> set (visits [[([0], 0)]]). snd (snd v) = 0"
    by (simp add: visits_single)
  from run_collapsed obtain s1 where s1: "vessel_conductivity_vec inp_collapsed [[([0], 0)]] sc0 = Some s1"
    by blast
  have r1: "\<forall>v \<in> set (visits [[([0], 0)]]). snd (snd v) = 0 \<longrightarrow> buckled_above (dof_regime inp_collapsed (fst v) 0)"
    by (simp add: regime_collapsed)
  from stored_radius_mismatch[OF s1 v, THEN conjunct1] r1
  have c1: "R_v (fst s1) 0 \<noteq> CSarea_v (fst s1) 0 / CSper_v (fst s1) 0" by blast
  from run_mild obtain s2 where s2: "vessel_conductivity_vec inp_buckled_mild [[([0], 0)]] sc0 = Some s2"
    by blast
  have r2: "\<forall>v \<in> set (visits [[([0], 0)]]). snd (snd v) = 0 \<longrightarrow> buckled_upto (dof_regime inp_buckled_mild (fst v) 0)"
    by (simp add: regime_mild)
  from stored_radius_mismatch[OF s2 v, THEN conjunct2, THEN conjunct1] r2
  have c2: "R_v (fst s2) 0 = CSarea_v (fst s2) 0 / CSper_v (fst s2) 0" by blast
  from run_arteriole obtain s3 where s3: "vessel_conductivity_vec inp_arteriole [[([0], 0)]] sc0 = Some s3"
    by blast
  have r3: "\<forall>v \<in> set (visits [[([0], 0)]]). snd (snd v) = 0 \<longrightarrow> circular (dof_regime inp_arteriole (fst v) 0)"
    by (simp add: regime_arteriole)
  from stored_radius_mismatch[OF s3 v, THEN conjunct2, THEN conjunct2] r3
  have c3: "CSarea_v (fst s3) 0 / CSper_v (fst s3) 0 = R_v (fst s3) 0 / 2
      \<and> R_v (fst s3) 0 \<noteq> CSarea_v (fst s3) 0 / CSper_v (fst s3) 0" by blast
  from s1 c1 regime_collapsed s2 c2 regime_mild s3 c3 regime_arteriole show ?thesis by blast
qed

section \<open>Properties of the hematocrit solve, the residual and the fixed-point loop\<close>

subsection \<open>Under-relaxation\<close>

lemma map2_scaled:
  "map2 (\<lambda>y x. y + x) (map (\<lambda>x. x * a) xs) (map (\<lambda>x. x * b) ys)
     = map2 (\<lambda>s u. a * s + b * u) xs (ys :: real list)"
  by (induction xs ys rule: list_induct2') (simp_all add: mult.commute)

lemma iteration_solve_relaxed:
  assumes "length U_O = length (SuperLU_solve env (gmm_clean env AM) F_N)"
  shows "iteration_solve env AM U_O F_N =
     Inr (map2 (\<lambda>s u. underH env * s + (1 - underH env) * u)
            (SuperLU_solve env (gmm_clean env AM) F_N) U_O, gmm_clean env AM)"
proof (cases "underH env = 1")
  case True
  have "map2 (\<lambda>s u. s) xs ys = xs" if "length ys = length xs" for xs ys :: "real list"
    using that by (induction xs ys rule: list_induct2') auto
  with True assms show ?thesis
    by (simp add: iteration_solve_def Let_def)
next
  case False
  with assms show ?thesis
    by (simp add: iteration_solve_def Let_def gmm_add_def gmm_scale_def map2_scaled)
qed

lemma iteration_solve_unrelaxed:
  "underH env = 1 \<Longrightarrow> iteration_solve env AM U_O F_N =
     Inr (SuperLU_solve env (gmm_clean env AM) F_N, gmm_clean env AM)"
  by (simp add: iteration_solve_def Let_def)

lemma call_keeps_H_old:
  "hematocrit_solve_call fenv st = Inr st' \<Longrightarrow> H_old st' = H_old st \<and> FM_HT st' = FM_HT st"
  by (auto simp: hematocrit_solve_call_def split: sum.splits prod.splits)

text \<open>
  Claim C7. For every old iterate \<open>U_O\<close>, right-hand side \<open>F_N\<close> and relaxation factor
  \<open>alfa\<close>, \<open>iteration_solve\<close> returns, entry by entry, \<open>alfa\<close> times the freshly solved
  solution plus \<open>1 - alfa\<close> times \<open>U_O\<close> (the two vectors having the same size, which
  \<open>gmm::add\<close> checks); when \<open>alfa = 1\<close> it returns the solved solution unchanged; and at
  the call \<open>H_new = iteration_solve(H_old, FM_HT)\<close> the caller's \<open>H_old\<close> is not modified,
  \<open>H_new\<close> receiving the returned vector.
\<close>

theorem iteration_solve_relaxation:
  "(length U_O = length (SuperLU_solve env (gmm_clean env AM) F_N) \<longrightarrow>
      iteration_solve env AM U_O F_N =
        Inr (map2 (\<lambda>s u. underH env * s + (1 - underH env) * u)
               (SuperLU_solve env (gmm_clean env AM) F_N) U_O, gmm_clean env AM))
   \<and> (underH env = 1 \<longrightarrow>
      iteration_solve env AM U_O F_N = Inr (SuperLU_solve env (gmm_clean env AM) F_N, gmm_clean env AM))
   \<and> (hematocrit_solve_call fenv st = Inr st' \<longrightarrow>
        H_old st' = H_old st \<and>
        (\<exists>A'. iteration_solve (ht fenv) (AM_HT st) (H_old st) (FM_HT st) = Inr (H_new st', A')))"
proof (intro conjI impI)
  assume "hematocrit_solve_call fenv st = Inr st'"
  then show "\<exists>A'. iteration_solve (ht fenv) (AM_HT st) (H_old st) (FM_HT st) = Inr (H_new st', A')"
    by (auto simp: hematocrit_solve_call_def split: sum.splits prod.splits)
qed (simp_all add: iteration_solve_relaxed iteration_solve_unrelaxed call_keeps_H_old)

lemma ex_solve: "iteration_solve ht0 () [2, 4] [4, 8] = Inr ([3, 6], ())"
  by (simp add: iteration_solve_def ht0_def Let_def gmm_add_def gmm_scale_def)

theorem iteration_solve_relaxation_witness:
  "iteration_solve ht0 () [2, 4] [4, 8] = Inr ([3, 6], ())
   \<and> iteration_solve (ht0\<lparr>underH := 1\<rparr>) () [2, 4] [4, 8] = Inr ([4, 8], ())
   \<and> hematocrit_solve_call env0 (s0\<lparr>H_old := [2, 4], FM_HT := [4, 8]\<rparr>)
       = Inr (s0\<lparr>H_old := [2, 4], FM_HT := [4, 8], H_new := [3, 6]\<rparr>)
   \<and> H_old (s0\<lparr>H_old := [2, 4], FM_HT := [4, 8], H_new := [3, 6]\<rparr>) = [2, 4]"
proof -
  let ?st = "s0\<lparr>H_old := [2, 4], FM_HT := [4, 8]\<rparr>"
  let ?st' = "s0\<lparr>H_old := [2, 4], FM_HT := [4, 8], H_new := [3, 6]\<rparr>"
  have l: "length [2, 4 :: real] = length (SuperLU_solve ht0 (gmm_clean ht0 ()) [4, 8])"
    by (simp add: ht0_def)
  have a: "iteration_solve ht0 () [2, 4] [4, 8] = Inr ([3, 6], ())"
    using iteration_solve_relaxation[where U_O = "[2, 4]" and env = ht0 and AM = "()" and F_N = "[4, 8]",
        THEN conjunct1, rule_format, OF l]
    by (simp add: ht0_def)
  have u: "underH (ht0\<lparr>underH := 1\<rparr>) = 1" by simp
  have b: "iteration_solve (ht0\<lparr>underH := 1\<rparr>) () [2, 4] [4, 8] = Inr ([4, 8], ())"
    using iteration_solve_relaxation[where env = "ht0\<lparr>underH := 1\<rparr>" and AM = "()" and F_N = "[4, 8]",
        THEN conjunct2, THEN conjunct1, rule_format, OF u, of "[2, 4]"]
    by (simp add: ht0_def)
  have c: "hematocrit_solve_call env0 ?st = Inr ?st'"
    by (simp add: hematocrit_solve_call_def env0_def s0_def a)
  have "H_old ?st' = H_old ?st"
    using iteration_solve_relaxation[where fenv = env0 and st = ?st and st' = ?st',
        THEN conjunct2, THEN conjunct2, rule_format, OF c]
    by simp
  then have d: "H_old ?st' = [2, 4]" by simp
  from a b c d show ?thesis by simp
qed

subsection \<open>Degenerate inputs\<close>

lemma viscosity_zero_hematocrit:
  "visco_v = 0 \<or> visco_v = 1 \<Longrightarrow> viscosity_dof visco_v vivo vitro 0 Rdim mu_plasma = Some mu_plasma"
  by (auto simp: viscosity_dof_def)

lemma mass_residual_zero_flow: "mass_residual 0 s = 0"
  by (simp add: mass_residual_def)

text \<open>
  Claim C6: numerical-degeneracy inputs are guarded explicitly and never propagate
  NaN/Inf: when the local hematocrit is exactly zero the viscosity computation returns
  the plasma viscosity instead of evaluating the empirical correlation, and when the
  denominator norm of a residual computation is zero the residual term is skipped rather
  than divided by zero. The viscosity half holds (\<open>viscosity_zero_hematocrit\<close>), and the
  mass residual is guarded against a zero flow rate (\<open>mass_residual_zero_flow\<close>). The
  hematocrit residual is not: \<open>calcolo_Rk\<close> divides by the norm of the old iterate
  without a test. For a zero old iterate it returns NaN when the new iterate is zero too
  and plus infinity otherwise; and a NaN hematocrit residual compares false with the
  tolerance, so that the continuation flag of the loop drops as if the residual had
  converged.
\<close>

theorem calcolo_Rk_zero_denominator:
  "calcolo_Rk 2 [0, 0] [0, 0] = Inr NaN
   \<and> calcolo_Rk 2 [1, 0] [0, 0] = Inr PInf
   \<and> continue_flag env0 (Fin 0) 0 NaN = False"
  by (simp add: calcolo_Rk_def gmm_copy_def gmm_scale_def gmm_add_def vect_norm2_def ieee_div_def
      continue_flag_def env0_def Let_def)

subsection \<open>Control of the fixed-point loop\<close>

text \<open>The total flow rate of cleared exchange matrices is zero, whatever the iterate.\<close>

lemma sum_list_map2_zero: "sum_list (map2 (\<lambda>a b. a * b) (map (\<lambda>x. 0) row) x) = (0::real)"
proof (induction row arbitrary: x)
  case Nil
  then show ?case by simp
next
  case (Cons a row)
  then show ?case by (cases x) simp_all
qed

lemma gmm_mult_cleared: "gmm_mult (gmm_clear_mat A) x = replicate (length A) 0"
  unfolding gmm_mult_def gmm_clear_mat_def
  by (induction A) (simp_all add: sum_list_map2_zero)

lemma foldl_add_zeros: "set ys \<subseteq> {0} \<Longrightarrow> foldl (\<lambda>a b. a + b) (0::real) ys = 0"
  by (induction ys) auto

lemma map2_add_zeros: "set xs \<subseteq> {0} \<Longrightarrow> set (map2 (\<lambda>c r. c + r) xs (replicate n (0::real))) \<subseteq> {0}"
proof (induction xs arbitrary: n)
  case Nil
  then show ?case by simp
next
  case (Cons a xs)
  then show ?case by (cases n) auto
qed

lemma total_flow_rate_cleared:
  "total_flow_rate env (gmm_clear_mat Bvt) (gmm_clear_mat Bvv) Unew = 0"
proof -
  have z: "set (replicate n (0::real)) \<subseteq> {0}" for n by auto
  show ?thesis
    unfolding total_flow_rate_def Let_def gmm_mult_add_def gmm_mult_cleared
    by (intro foldl_add_zeros map2_add_zeros z)
qed

text \<open>What one pass leaves in the state: the flag is the disjunction of the three tests on
  the residuals of the pass, and the mass residual of the pass is zero.\<close>

lemma body_flag:
  assumes "iteration_body env st = Inr st'"
  shows "RK st' = continue_flag env (resSol st') (resCM st') (resH st')"
    and "iteration st' = iteration st + 1"
    and "U_old st' = fst (snd (flow_iteration env (world st) (UM st) (U_old st) (H_old st)))"
    and "UM st' = U_old st'"
    and "resSol st' = calcolo_Rk_flow env (U_old st') (U_old st)"
    and "calcolo_Rk (dofH (ht env)) (H_old st') (H_old st) = Inr (resH st')"
    and "resCM st' = 0"
  using assms unfolding iteration_body_def hematocrit_solve_call_def Let_def total_flow_rate_cleared
  by (auto simp: mass_residual_def split: prod.splits sum.splits)

lemma loop_exit: "fixpoint_loop env st = Inr st' \<Longrightarrow> \<not> loop_guard env st'"
proof (induction env st rule: fixpoint_loop.induct)
  case (1 env st)
  show ?case
  proof (cases "loop_guard env st")
    case True
    with "1.prems" obtain s where s: "iteration_body env st = Inr s" and "fixpoint_loop env s = Inr st'"
      by (subst (asm) fixpoint_loop.simps) (auto split: sum.splits)
    with "1.IH"[OF True s] show ?thesis by simp
  next
    case False
    with "1.prems" show ?thesis by (subst (asm) fixpoint_loop.simps) simp
  qed
qed

lemma loop_last:
  "fixpoint_loop env st = Inr st' \<Longrightarrow>
     st' = st \<or> (\<exists>s. loop_guard env s \<and> iteration_body env s = Inr st')"
proof (induction env st rule: fixpoint_loop.induct)
  case (1 env st)
  show ?case
  proof (cases "loop_guard env st")
    case True
    with "1.prems" obtain s where s: "iteration_body env st = Inr s" and l: "fixpoint_loop env s = Inr st'"
      by (subst (asm) fixpoint_loop.simps) (auto split: sum.splits)
    from "1.IH"[OF True s l] True s show ?thesis by auto
  next
    case False
    with "1.prems" show ?thesis by (subst (asm) fixpoint_loop.simps) simp
  qed
qed

lemma finish_fields:
  "snd (finish fin) = True" "UM (fst (finish fin)) = U_old fin"
  "RK fin \<Longrightarrow> out (fst (finish fin)) = out fin @ [NotConverged]"
  "\<not> RK fin \<Longrightarrow> out (fst (finish fin)) = out fin"
  by (simp_all add: finish_def Let_def)

text \<open>The loop as the source runs it. After a pass the loop goes on exactly when the flag
  computed in that pass holds and the count, grown by one, is below \<open>Max_it\<close>; the flag
  is the disjunction of the tests of the solution residual and of the hematocrit residual
  of the pass, and of the test \<open>0 > epsCM\<close>: the mass residual the pass compares with
  its tolerance is zero. When the loop ends, \<open>solve_fixpoint\<close> copies the last iterate
  into \<open>UM\<close> and returns \<open>true\<close>, reporting non-convergence exactly when the flag still
  holds, in which case the count has reached \<open>Max_it\<close>.\<close>

lemma loop_control:
  "(iteration_body env st = Inr st' \<longrightarrow>
      (loop_guard env st' \<longleftrightarrow>
         (gt_scalar (resSol st') (epsSol env) \<or> 0 > epsCM env \<or> gt_scalar (resH st') (epsH env))
         \<and> iteration st' < Max_it env)
      \<and> RK st' = (gt_scalar (resSol st') (epsSol env) \<or> 0 > epsCM env \<or> gt_scalar (resH st') (epsH env))
      \<and> resCM st' = 0
      \<and> resSol st' = calcolo_Rk_flow env (U_old st') (U_old st)
      \<and> calcolo_Rk (dofH (ht env)) (H_old st') (H_old st) = Inr (resH st')
      \<and> iteration st' = iteration st + 1)
   \<and> (loop_guard env st' \<longrightarrow>
        fixpoint_loop env st' = (case iteration_body env st' of Inl e \<Rightarrow> Inl e | Inr s \<Rightarrow> fixpoint_loop env s))
   \<and> (\<not> loop_guard env st' \<longrightarrow> fixpoint_loop env st' = Inr st')
   \<and> (fixpoint_loop env (initial_guess env st0) = Inr fin \<longrightarrow>
        solve_fixpoint env st0 = Inr (finish fin)
        \<and> snd (finish fin) = True
        \<and> UM (fst (finish fin)) = U_old fin
        \<and> (fin = initial_guess env st0
            \<or> (\<exists>s. loop_guard env s \<and> iteration_body env s = Inr fin
                  \<and> U_old fin = fst (snd (flow_iteration env (world s) (UM s) (U_old s) (H_old s)))))
        \<and> (RK fin \<longrightarrow> Max_it env \<le> iteration fin \<and> out (fst (finish fin)) = out fin @ [NotConverged])
        \<and> (\<not> RK fin \<longrightarrow> out (fst (finish fin)) = out fin))"
proof (intro conjI impI)
  assume b: "iteration_body env st = Inr st'"
  from body_flag(1)[OF b] body_flag(7)[OF b]
  show rk: "RK st' = (gt_scalar (resSol st') (epsSol env) \<or> 0 > epsCM env \<or> gt_scalar (resH st') (epsH env))"
    by (simp add: continue_flag_def)
  show "loop_guard env st' \<longleftrightarrow>
         (gt_scalar (resSol st') (epsSol env) \<or> 0 > epsCM env \<or> gt_scalar (resH st') (epsH env))
         \<and> iteration st' < Max_it env"
    unfolding loop_guard_def rk ..
  show "resCM st' = 0"
    and "resSol st' = calcolo_Rk_flow env (U_old st') (U_old st)"
    and "calcolo_Rk (dofH (ht env)) (H_old st') (H_old st) = Inr (resH st')"
    and "iteration st' = iteration st + 1"
    by (rule body_flag[OF b])+
next
  assume "loop_guard env st'"
  then show "fixpoint_loop env st' = (case iteration_body env st' of Inl e \<Rightarrow> Inl e | Inr s \<Rightarrow> fixpoint_loop env s)"
    by (subst fixpoint_loop.simps) simp
next
  assume "\<not> loop_guard env st'"
  then show "fixpoint_loop env st' = Inr st'"
    by (subst fixpoint_loop.simps) simp
next
  assume l: "fixpoint_loop env (initial_guess env st0) = Inr fin"
  show "solve_fixpoint env st0 = Inr (finish fin)"
    by (simp add: solve_fixpoint_def l)
  show "snd (finish fin) = True" and "UM (fst (finish fin)) = U_old fin"
    by (rule finish_fields)+
  show "fin = initial_guess env st0
            \<or> (\<exists>s. loop_guard env s \<and> iteration_body env s = Inr fin
                  \<and> U_old fin = fst (snd (flow_iteration env (world s) (UM s) (U_old s) (H_old s))))"
    using loop_last[OF l] body_flag(3) by blast
  show "Max_it env \<le> iteration fin" if "RK fin"
    using loop_exit[OF l] that by (simp add: loop_guard_def)
  show "out (fst (finish fin)) = out fin @ [NotConverged]" if "RK fin"
    using that by (rule finish_fields)
  show "out (fst (finish fin)) = out fin" if "\<not> RK fin"
    using that by (rule finish_fields)
qed

text \<open>The run \<open>env1\<close>, \<open>s1\<close>, for any positive iteration limit: the state before the
  loop, the one pass, the result, and the total flow rate the assembled exchange matrices
  give.\<close>

lemma init_ex1:
  "initial_guess (env1\<lparr>Max_it := m\<rparr>) s1 =
     s0\<lparr>UM := [1, 1], U_old := [1, 1], UM_HT := [1, 1], resSol := Fin 1, resCM := 1,
        resH := Fin 1, RK := True, iteration := 0, AM_HT := (), FM_HT := [1, 1], H_old := [1, 1]\<rparr>"
  by (simp add: initial_guess_def env1_def ht0_def s1_def s0_def Let_def numeral_2_eq_2)

lemma body_ex1: "iteration_body (env1\<lparr>Max_it := m\<rparr>) (initial_guess (env1\<lparr>Max_it := m\<rparr>) s1) = Inr fin1"
  unfolding init_ex1 fin1_def
  by (simp add: iteration_body_def hematocrit_solve_call_def iteration_solve_def checkpoint_def
      total_flow_rate_cleared
      calcolo_Rk_def gmm_copy_def gmm_scale_def gmm_add_def gmm_clear_def vect_norm2_def ieee_div_def
      mass_residual_def continue_flag_def env1_def ht0_def s0_def Let_def)

lemma run_ex1:
  assumes "0 < m"
  shows "solve_fixpoint (env1\<lparr>Max_it := m\<rparr>) s1 = Inr (fin1, True)"
proof -
  have g: "loop_guard (env1\<lparr>Max_it := m\<rparr>) (initial_guess (env1\<lparr>Max_it := m\<rparr>) s1)"
    unfolding init_ex1 using assms by (simp add: loop_guard_def)
  have ng: "\<not> loop_guard (env1\<lparr>Max_it := m\<rparr>) fin1"
    by (simp add: loop_guard_def fin1_def)
  have "fixpoint_loop (env1\<lparr>Max_it := m\<rparr>) fin1 = Inr fin1"
    using ng by (subst fixpoint_loop.simps) simp
  with g have "fixpoint_loop (env1\<lparr>Max_it := m\<rparr>) (initial_guess (env1\<lparr>Max_it := m\<rparr>) s1) = Inr fin1"
    by (subst fixpoint_loop.simps) (simp add: body_ex1)
  moreover have "finish fin1 = (fin1, True)"
    by (simp add: finish_def fin1_def Let_def)
  ultimately show ?thesis by (simp add: solve_fixpoint_def)
qed

lemma env1_limit: "env1\<lparr>Max_it := 10\<rparr> = env1"
  by (simp add: env1_def)

lemma assembled_flow_rate_ex1: "total_flow_rate env1 [[1]] [[1]] [1, 1] = 2"
  by (simp add: total_flow_rate_def gmm_mult_def gmm_mult_add_def gmm_scale_def sub_vector_def
      env1_def Let_def)

text \<open>
  Claim C5: the outer fixed-point loop performs another iteration exactly when (solution
  residual \<open>> epsSol\<close> or |mass-conservation residual| \<open>> epsCM\<close> or hematocrit residual
  \<open>> epsH\<close>) and the iteration count is below the configured maximum; when the maximum is
  reached without all three thresholds satisfied, the solver returns the last iterate
  (copied back into the solution vector) and reports non-convergence without aborting.
  The loop guard, the flag, the copy of the last iterate and the report are as claimed
  (\<open>loop_control\<close>), but the mass-conservation residual never takes part: the total flow
  rate by which it is divided is computed from the exchange matrices after they have been
  cleared, so it is zero, the division is skipped and the residual compared with
  \<open>epsCM\<close> is zero in every pass. In the run \<open>env1\<close>, \<open>s1\<close> the first pass leaves the flow
  iterate and the hematocrit unchanged (both residuals are 0), while the assembled exchange
  matrices give the total flow rate 2 and the accumulated \<open>auxCM\<close> is 1, a mass residual
  of \<open>1/2\<close> against the tolerance \<open>1/100\<close>. The claim has the loop go on, the count 1 being
  below the maximum 10; the code leaves the loop after this pass with the flag down and
  returns without a report of non-convergence. With the maximum set to 1 the maximum is
  reached with the mass threshold not satisfied, and again nothing is reported.
\<close>

theorem mass_residual_never_tested:
  "flow_iteration env1 () [1, 1] [1, 1] [1, 1] = ((), [1, 1], [[1]], [[1]])
   \<and> total_flow_rate env1 [[1]] [[1]] [1, 1] = 2
   \<and> mass_residual (total_flow_rate env1 [[1]] [[1]] [1, 1]) (mass_sum env1 () [1, 1]) = 1 / 2
   \<and> continue_flag env1 (Fin 0) (1 / 2) (Fin 0)
   \<and> (\<exists>fin. solve_fixpoint env1 s1 = Inr (fin, True)
          \<and> solve_fixpoint (env1\<lparr>Max_it := 1\<rparr>) s1 = Inr (fin, True)
          \<and> iteration fin = 1 \<and> iteration fin < Max_it env1
          \<and> resSol fin = Fin 0 \<and> resCM fin = 0 \<and> resH fin = Fin 0
          \<and> RK fin = False
          \<and> UM fin = [1, 1]
          \<and> out fin = [Residuals 1 (Fin 0) 0 (Fin 0)])"
proof -
  have a: "flow_iteration env1 () [1, 1] [1, 1] [1, 1] = ((), [1, 1], [[1]], [[1]])"
    by (simp add: env1_def)
  have b: "mass_residual (total_flow_rate env1 [[1]] [[1]] [1, 1]) (mass_sum env1 () [1, 1]) = 1 / 2"
    unfolding assembled_flow_rate_ex1 by (simp add: mass_residual_def env1_def)
  have c: "continue_flag env1 (Fin 0) (1 / 2) (Fin 0)"
    by (simp add: continue_flag_def env1_def)
  have d: "solve_fixpoint env1 s1 = Inr (fin1, True)"
    using run_ex1[of 10] unfolding env1_limit by simp
  have e: "solve_fixpoint (env1\<lparr>Max_it := 1\<rparr>) s1 = Inr (fin1, True)"
    using run_ex1[of 1] by simp
  have f: "iteration fin1 = 1 \<and> iteration fin1 < Max_it env1
          \<and> resSol fin1 = Fin 0 \<and> resCM fin1 = 0 \<and> resH fin1 = Fin 0
          \<and> RK fin1 = False \<and> UM fin1 = [1, 1]
          \<and> out fin1 = [Residuals 1 (Fin 0) 0 (Fin 0)]"
    by (simp add: fin1_def env1_def)
  from d e f have "\<exists>fin. solve_fixpoint env1 s1 = Inr (fin, True)
          \<and> solve_fixpoint (env1\<lparr>Max_it := 1\<rparr>) s1 = Inr (fin, True)
          \<and> iteration fin = 1 \<and> iteration fin < Max_it env1
          \<and> resSol fin = Fin 0 \<and> resCM fin = 0 \<and> resH fin = Fin 0
          \<and> RK fin = False
          \<and> UM fin = [1, 1]
          \<and> out fin = [Residuals 1 (Fin 0) 0 (Fin 0)]"
    by blast
  with a assembled_flow_rate_ex1 b c show ?thesis by blast
qed

section \<open>The artificial diffusivity on a two-branch network\<close>

text \<open>
  Claim C2 says that the diffusivity is \<open>Theta / 2\<close> times the maximum over the branches
  of (largest absolute velocity of the branch times largest element size of the branch's
  own elements). In the source \<open>max_size\<close> is not reset between branches, although the
  comment reads "Estimate maximum h for the i-th branch": the size factor of branch \<open>i\<close>
  is the largest element size of the branches \<open>0..i\<close>. With \<open>Theta = 2\<close>, branch 0 of
  one element of size 2 at rest and branch 1 of one element of size 1 with velocity 1, the
  source gives the diffusivity 2, the formula of the claim gives 1.
\<close>

theorem diffusivity_running_size:
  "artificial_diffusivity 2 [0, 1] 0 [([2], 1), ([1], 1)] = Inr 2
   \<and> spec_diffusivity 2 [([2], [0]), ([1], [1])] = 1"
  by (simp add: artificial_diffusivity_def max_abs_velocity_def max_element_def min_element_def
      spec_diffusivity_def Let_def)


section \<open>Properties of the topology builder\<close>

subsection \<open>The builder on the example meshes\<close>

lemmas builder_defs = build_vessel_boundary_def process_convex_def process_i0_def process_i1_def
  claim_region_def has_region_def is_in_def region_add_def find_branch_def find_bc_def find_junction_def
  search_def update_at_def elem_at_def orientation_def add_value_def push_branch_def new_node_def
  diagnostics_def

lemma Y_eval:
  "build_vessel_boundary (\<lambda>b. real b + 1) msh_Y 3 bcs_Y =
   ([], Inr \<lparr>new_regions = [(3, 0, 1), (4, 0, 0), (5, 1, 0), (6, 2, 0)], fer = 7,
         BCv_HT =
           [\<lparr>n_label = ''DIR'', n_value = 1, n_idx = 0, n_rg = 3, n_branches = [0]\<rparr>,
            \<lparr>n_label = ''DIR'', n_value = 0, n_idx = 2, n_rg = 5, n_branches = [1]\<rparr>,
            \<lparr>n_label = ''DIR'', n_value = 0, n_idx = 3, n_rg = 6, n_branches = [2]\<rparr>],
         Jv_HT = [\<lparr>n_label = ''JUN'', n_value = 6, n_idx = 1, n_rg = 4, n_branches = [0, - 1, - 2]\<rparr>],
         junctions = {1}, extrema = {3, 2, 0}, nb_extrema = 3, nb_junctions = 1\<rparr>)"
  by (simp add: builder_defs msh_Y_def bcs_Y_def Let_def eval_nat_numeral)

lemma Y0_eval:
  "build_vessel_boundary (\<lambda>b. real b + 1) msh_Y0 3 bcs_Y =
     ([], Inl (Assertion ''Error in network labeling: -0 makes no sense''))"
  by (simp add: builder_defs msh_Y0_def msh_Y_def bcs_Y_def Let_def eval_nat_numeral)

lemma tri_eval:
  "build_vessel_boundary (\<lambda>b. 1) msh_tri 1 bcs_seg =
   ([MoreThan2Vertices 0, MoreThan2Faces 0],
    Inr \<lparr>new_regions = [(1, 0, 1), (2, 0, 0)], fer = 3,
         BCv_HT =
           [\<lparr>n_label = ''DIR'', n_value = 1, n_idx = 0, n_rg = 1, n_branches = [0]\<rparr>,
            \<lparr>n_label = ''MIX'', n_value = 0, n_idx = 1, n_rg = 2, n_branches = [0]\<rparr>],
         Jv_HT = [], junctions = {}, extrema = {0}, nb_extrema = 1, nb_junctions = 0\<rparr>)"
  by (simp add: builder_defs msh_tri_def bcs_seg_def Let_def eval_nat_numeral)

lemma lost_eval:
  "build_vessel_boundary (\<lambda>b. 1) msh_lost 1 bcs_seg =
   ([],
    Inr \<lparr>new_regions = [(1, 0, 1), (2, 0, 0)], fer = 3,
         BCv_HT =
           [\<lparr>n_label = ''DIR'', n_value = 1, n_idx = 0, n_rg = 1, n_branches = [1]\<rparr>,
            \<lparr>n_label = ''MIX'', n_value = 0, n_idx = 1, n_rg = 2, n_branches = [1]\<rparr>],
         Jv_HT = [], junctions = {}, extrema = {0}, nb_extrema = 1, nb_junctions = 0\<rparr>)"
  by (simp add: builder_defs msh_lost_def bcs_seg_def Let_def eval_nat_numeral)

subsection \<open>The junction counter\<close>

text \<open>\<open>nb_junctions\<close> is the length of \<open>Jv_HT\<close> in every state the builder passes
  through, so the subscripts \<open>Jv_HT[jj]\<close> read by the junction search are in range.\<close>

lemma update_at_length: "update_at k f xs = Inr ys \<Longrightarrow> length ys = length xs"
  by (auto simp: update_at_def split: if_splits)

lemma claim_region_counts: "claim_region msh cv f st = Inr st' \<Longrightarrow>
    Jv_HT st' = Jv_HT st \<and> nb_junctions st' = nb_junctions st"
  by (auto simp: claim_region_def region_add_def split: if_splits)

lemma process_i0_count:
  assumes "nb_junctions st = length (Jv_HT st)" and "process_i0 Rb msh nbr cv i0 st = Inr st'"
  shows "nb_junctions st' = length (Jv_HT st')"
proof -
  let ?deg = "length (convex_to_point msh i0)"
  consider (one) "?deg = 1" | (two) "?deg = 2" | (many) "?deg \<noteq> 1" "?deg \<noteq> 2" "?deg \<ge> 2" | (none) "?deg = 0"
    by linarith
  then show ?thesis
  proof cases
    case one
    with assms show ?thesis
      unfolding process_i0_def Let_def
      by (auto split: sum.splits dest!: claim_region_counts)
  next
    case two
    with assms show ?thesis by (simp add: process_i0_def Let_def)
  next
    case none
    with assms show ?thesis by (simp add: process_i0_def Let_def)
  next
    case many
    show ?thesis
    proof (cases "i0 \<in> junctions st")
      case True
      with many assms show ?thesis
        unfolding process_i0_def Let_def
        by (auto split: sum.splits if_splits dest!: update_at_length)
    next
      case False
      with many assms show ?thesis
        unfolding process_i0_def Let_def
        by (auto split: sum.splits if_splits dest!: claim_region_counts update_at_length)
    qed
  qed
qed

lemma process_i1_count:
  assumes "nb_junctions st = length (Jv_HT st)" and "process_i1 Rb msh nbr cv i1 st = Inr st'"
  shows "nb_junctions st' = length (Jv_HT st')"
proof -
  let ?deg = "length (convex_to_point msh i1)"
  consider (one) "?deg = 1" | (two) "?deg = 2" | (many) "?deg \<noteq> 1" "?deg \<noteq> 2" "?deg \<ge> 2" | (none) "?deg = 0"
    by linarith
  then show ?thesis
  proof cases
    case one
    with assms show ?thesis
      unfolding process_i1_def Let_def
      by (auto split: sum.splits if_splits dest!: claim_region_counts)
  next
    case none
    with assms show ?thesis by (simp add: process_i1_def Let_def)
  next
    case two
    with assms show ?thesis
      unfolding process_i1_def Let_def
      by (auto split: sum.splits if_splits dest!: claim_region_counts)
  next
    case many
    show ?thesis
    proof (cases "i1 \<in> junctions st")
      case True
      with many assms show ?thesis
        unfolding process_i1_def Let_def
        by (auto split: sum.splits dest!: update_at_length)
    next
      case False
      with many assms show ?thesis
        unfolding process_i1_def Let_def
        by (auto split: sum.splits dest!: claim_region_counts)
    qed
  qed
qed

lemma convex_loop_count:
  assumes "nb_junctions st = length (Jv_HT st)" and "snd (convex_loop Rb msh nbr cvs st) = Inr st'"
  shows "nb_junctions st' = length (Jv_HT st')"
  using assms
proof (induction cvs arbitrary: st)
  case Nil
  then show ?case by simp
next
  case (Cons cv cvs)
  from Cons.prems(2) obtain i0 i1 s1 s where "process_i0 Rb msh nbr cv i0 st = Inr s1"
    and "process_i1 Rb msh nbr cv i1 s1 = Inr s" and l: "snd (convex_loop Rb msh nbr cvs s) = Inr st'"
    by (auto simp: Let_def process_convex_def split: sum.splits)
  with Cons.prems(1) have "nb_junctions s = length (Jv_HT s)"
    using process_i0_count process_i1_count by blast
  from Cons.IH[OF this l] show ?case .
qed

lemma build_count:
  "snd (build_vessel_boundary Rb msh nbr bcs) = Inr st \<Longrightarrow> nb_junctions st = length (Jv_HT st)"
  unfolding build_vessel_boundary_def Let_def
  by (auto split: if_splits dest!: convex_loop_count[rotated])

subsection \<open>Junction weights\<close>

lemma listed_radii_push:
  "listed_radii Rb (push_branch b n) = listed_radii Rb n + Rb (nat \<bar>b\<bar>)"
  by (simp add: listed_radii_def push_branch_def)

lemma listed_radii_add_value: "listed_radii Rb (add_value r n) = listed_radii Rb n"
  by (simp add: listed_radii_def add_value_def)

lemma value_push: "n_value (push_branch b n) = n_value n"
  by (simp add: push_branch_def)

lemma value_add: "n_value (add_value r n) = n_value n + r"
  by (simp add: add_value_def)

lemma new_node_weight: "n_value (new_node l 0 i r) = listed_radii Rb (new_node l 0 i r)"
  by (simp add: new_node_def listed_radii_def)

lemmas weight_simps = listed_radii_push listed_radii_add_value value_push value_add new_node_weight

lemma update_at_Inr:
  "update_at k f xs = Inr ys \<Longrightarrow> k < length xs \<and> ys = xs[k := f (xs ! k)]"
  by (auto simp: update_at_def split: if_splits)

lemma update_twice_preserves:
  assumes "\<forall>n \<in> set xs. P n" and "update_at k f xs = Inr ys" and "update_at k g ys = Inr zs"
      and "\<And>n. P n \<Longrightarrow> P (g (f n))"
  shows "\<forall>n \<in> set zs. P n"
proof -
  from assms(2) have k: "k < length xs" and ys: "ys = xs[k := f (xs ! k)]"
    by (auto dest: update_at_Inr)
  from assms(3) ys k have zs: "zs = xs[k := g (f (xs ! k))]"
    by (auto dest!: update_at_Inr)
  have "P (g (f (xs ! k)))" using assms(1,4) k by simp
  then show ?thesis
    unfolding zs using assms(1) set_update_subset_insert[of xs k "g (f (xs ! k))"] by auto
qed

lemma claim_region_Jv: "claim_region msh cv f st = Inr st' \<Longrightarrow>
    Jv_HT st' = Jv_HT st \<and> junctions st' = junctions st \<and> nb_junctions st' = nb_junctions st"
  by (auto simp: claim_region_def region_add_def split: if_splits)

lemma process_i0_weights:
  assumes "\<forall>n \<in> set (Jv_HT st). n_value n = listed_radii Rb n"
      and "process_i0 Rb msh nbr cv i0 st = Inr st'"
  shows "\<forall>n \<in> set (Jv_HT st'). n_value n = listed_radii Rb n"
proof -
  let ?P = "\<lambda>n. n_value n = listed_radii Rb n"
  let ?deg = "length (convex_to_point msh i0)"
  consider (one) "?deg = 1" | (two) "?deg = 2" | (many) "?deg \<noteq> 1" "?deg \<noteq> 2" "?deg \<ge> 2" | (none) "?deg = 0"
    by linarith
  then show ?thesis
  proof cases
    case one
    with assms(2) have "Jv_HT st' = Jv_HT st"
      unfolding process_i0_def Let_def
      by (auto split: sum.splits dest!: claim_region_Jv)
    with assms(1) show ?thesis by simp
  next
    case two
    with assms show ?thesis by (simp add: process_i0_def Let_def)
  next
    case none
    with assms show ?thesis by (simp add: process_i0_def Let_def)
  next
    case many
    let ?br = "find_branch msh nbr cv"
    from many assms(2) obtain st3 js js' where
      st3: "(if i0 \<notin> junctions st then
                    (let st1 = st\<lparr>junctions := insert i0 (junctions st), nb_junctions := nb_junctions st + 1\<rparr>
                     in case claim_region msh cv 1 st1 of Inl e \<Rightarrow> Inl e | Inr st2 \<Rightarrow>
                        Inr (st2\<lparr>Jv_HT := Jv_HT st2 @ [new_node ''JUN'' 0 i0 (fer st2)], fer := fer st2 + 1\<rparr>))
                  else Inr st) = Inr st3"
      and js: "update_at (find_junction st3 i0) (add_value (Rb ?br)) (Jv_HT st3) = Inr js"
      and js': "update_at (find_junction st3 i0) (push_branch (- int ?br)) js = Inr js'"
      and st': "st' = st3\<lparr>Jv_HT := js'\<rparr>"
      unfolding process_i0_def Let_def
      by (auto split: sum.splits if_splits)
    have I3: "\<forall>n \<in> set (Jv_HT st3). ?P n"
      using st3 assms(1)
      by (auto simp: Let_def weight_simps split: if_splits sum.splits dest!: claim_region_Jv)
    have "\<forall>n \<in> set js'. ?P n"
      by (rule update_twice_preserves[OF I3 js js']) (simp add: weight_simps)
    with st' show ?thesis by simp
  qed
qed

lemma orientation_Inr: "orientation msh c i1 msg = Inr s \<Longrightarrow> s = - 1 \<or> s = 1"
  by (auto simp: orientation_def split: sum.splits if_splits)

lemma signed_branch: "s = - 1 \<or> s = 1 \<Longrightarrow> nat \<bar>s * int b\<bar> = b"
  by auto

lemma process_i1_weights:
  assumes "\<forall>n \<in> set (Jv_HT st). n_value n = listed_radii Rb n"
      and "process_i1 Rb msh nbr cv i1 st = Inr st'"
  shows "\<forall>n \<in> set (Jv_HT st'). n_value n = listed_radii Rb n"
proof -
  let ?P = "\<lambda>n. n_value n = listed_radii Rb n"
  let ?deg = "length (convex_to_point msh i1)"
  consider (one) "?deg = 1" | (two) "?deg = 2" | (many) "?deg \<noteq> 1" "?deg \<noteq> 2" "?deg \<ge> 2" | (none) "?deg = 0"
    by linarith
  then show ?thesis
  proof cases
    case one
    with assms(2) have "Jv_HT st' = Jv_HT st"
      unfolding process_i1_def Let_def
      by (auto split: sum.splits if_splits dest!: claim_region_Jv)
    with assms(1) show ?thesis by simp
  next
    case none
    with assms show ?thesis by (simp add: process_i1_def Let_def)
  next
    case two
    let ?fb = "find_branch msh nbr cv"
    let ?cv1 = "convex_to_point msh i1 ! 0" and ?cv2 = "convex_to_point msh i1 ! 1"
    show ?thesis
    proof (cases "(\<not> is_in msh ?fb ?cv1 \<or> \<not> is_in msh ?fb ?cv2) \<and> i1 \<notin> junctions st")
      case False
      with two assms(2) have "st' = st"
        unfolding process_i1_def Let_def by (auto split: if_splits)
      with assms(1) show ?thesis by simp
    next
      case True
      let ?sb = "search (\<lambda>b. b \<noteq> ?fb \<and> is_in msh b (if ?cv1 = cv then ?cv2 else ?cv1)) nbr"
      from True two assms(2) obtain st2 in1 in2 where
        st2: "claim_region msh cv 0 (st\<lparr>junctions := insert i1 (junctions st), nb_junctions := nb_junctions st + 1\<rparr>) = Inr st2"
        and in1: "orientation msh (if ?cv1 \<noteq> cv then ?cv2 else ?cv1) i1 ''There's something wrong in firstbranch convex index'' = Inr in1"
        and in2: "orientation msh (if ?cv1 = cv then ?cv2 else ?cv1) i1 ''There's something wrong in secondbranch convex index'' = Inr in2"
        and st': "Jv_HT st' = Jv_HT st2 @
            [add_value (Rb ?sb) (add_value (Rb ?fb)
               (push_branch (in2 * int ?sb) (push_branch (in1 * int ?fb) (new_node ''JUN'' 0 i1 (fer st2)))))]"
        unfolding process_i1_def Let_def
        by (auto split: sum.splits if_splits)
      from st2 have J2: "Jv_HT st2 = Jv_HT st" by (auto dest!: claim_region_Jv)
      have "?P (add_value (Rb ?sb) (add_value (Rb ?fb)
               (push_branch (in2 * int ?sb) (push_branch (in1 * int ?fb) (new_node ''JUN'' 0 i1 (fer st2))))))"
        using signed_branch[OF orientation_Inr[OF in1], of ?fb] signed_branch[OF orientation_Inr[OF in2], of ?sb]
        by (simp add: weight_simps new_node_weight[symmetric])
      with assms(1) show ?thesis unfolding st' J2 by simp
    qed
  next
    case many
    let ?br = "find_branch msh nbr cv"
    show ?thesis
    proof (cases "i1 \<in> junctions st")
      case False
      with many assms(2) obtain st2 where
        st2: "claim_region msh cv 0 (st\<lparr>junctions := insert i1 (junctions st), nb_junctions := nb_junctions st + 1\<rparr>) = Inr st2"
        and st': "Jv_HT st' = Jv_HT st2 @ [add_value (Rb ?br) (push_branch (int ?br) (new_node ''JUN'' 0 i1 (fer st2)))]"
        unfolding process_i1_def Let_def
        by (auto split: sum.splits if_splits)
      from st2 have J2: "Jv_HT st2 = Jv_HT st" by (auto dest!: claim_region_Jv)
      have "?P (add_value (Rb ?br) (push_branch (int ?br) (new_node ''JUN'' 0 i1 (fer st2))))"
        by (simp add: weight_simps new_node_weight[symmetric])
      with assms(1) show ?thesis unfolding st' J2 by simp
    next
      case True
      with many assms(2) obtain js js' where
        js: "update_at (find_junction st i1) (push_branch (int ?br)) (Jv_HT st) = Inr js"
        and js': "update_at (find_junction st i1) (add_value (Rb ?br)) js = Inr js'"
        and st': "st' = st\<lparr>Jv_HT := js'\<rparr>"
        unfolding process_i1_def Let_def
        by (auto split: sum.splits if_splits)
      have "\<forall>n \<in> set js'. ?P n"
        by (rule update_twice_preserves[OF assms(1) js js']) (simp add: weight_simps)
      with st' show ?thesis by simp
    qed
  qed
qed

lemma process_convex_weights:
  assumes "\<forall>n \<in> set (Jv_HT st). n_value n = listed_radii Rb n"
      and "process_convex Rb msh nbr cv st = Inr st'"
  shows "\<forall>n \<in> set (Jv_HT st'). n_value n = listed_radii Rb n"
proof -
  from assms(2) obtain i0 i1 st1 where "process_i0 Rb msh nbr cv i0 st = Inr st1"
    and "process_i1 Rb msh nbr cv i1 st1 = Inr st'"
    unfolding process_convex_def by (auto split: sum.splits)
  then show ?thesis
    using process_i1_weights process_i0_weights[OF assms(1)] by blast
qed

lemma convex_loop_weights:
  assumes "\<forall>n \<in> set (Jv_HT st). n_value n = listed_radii Rb n"
      and "snd (convex_loop Rb msh nbr cvs st) = Inr st'"
  shows "\<forall>n \<in> set (Jv_HT st'). n_value n = listed_radii Rb n"
  using assms
proof (induction cvs arbitrary: st)
  case Nil
  then show ?case by simp
next
  case (Cons cv cvs)
  from Cons.prems(2) obtain s where s: "process_convex Rb msh nbr cv st = Inr s"
    and l: "snd (convex_loop Rb msh nbr cvs s) = Inr st'"
    by (auto simp: Let_def split: sum.splits)
  show ?case
    by (rule Cons.IH[OF process_convex_weights[OF Cons.prems(1) s] l])
qed

lemma listed_radii_sum: "listed_radii Rb n = sum_list (map (\<lambda>b. Rb (nat \<bar>b\<bar>)) (n_branches n))"
proof -
  have "foldl (+) a xs = a + sum_list xs" for a :: real and xs
    by (induction xs arbitrary: a) simp_all
  then show ?thesis by (simp add: listed_radii_def)
qed

text \<open>
  Claim C8. For every junction record produced by the topology builder (that is, in
  \<open>Jv_HT\<close> when \<open>build_vessel_boundary\<close> completes), the weight \<open>value\<close> equals the sum
  of the radii of the branches listed in \<open>branches\<close>, one radius per listed entry (the
  branch of an entry being its absolute value), accumulated in the order of the list. On
  the 3-branch Y-network the single junction's weight is the sum of the three branch
  radii.
\<close>

theorem junction_weight_sum:
  assumes "snd (build_vessel_boundary Rb msh nbr bcs) = Inr st"
  shows "\<forall>n \<in> set (Jv_HT st).
           n_value n = foldl (+) 0 (map (\<lambda>b. Rb (nat \<bar>b\<bar>)) (n_branches n))
         \<and> n_value n = sum_list (map (\<lambda>b. Rb (nat \<bar>b\<bar>)) (n_branches n))"
proof -
  let ?st0 = "\<lparr>new_regions = [], fer = nbr, BCv_HT = bcs, Jv_HT = [], junctions = {}, extrema = {},
                nb_extrema = 0, nb_junctions = 0\<rparr>"
  from assms have l: "snd (convex_loop Rb msh nbr (convex_index msh) ?st0) = Inr st"
    unfolding build_vessel_boundary_def Let_def by (auto split: if_splits)
  have "\<forall>n \<in> set (Jv_HT ?st0). n_value n = listed_radii Rb n" by simp
  from convex_loop_weights[OF this l] show ?thesis
    using listed_radii_sum[of Rb] by (simp add: listed_radii_def)
qed

theorem junction_weight_sum_witness:
  "\<exists>st. snd (build_vessel_boundary (\<lambda>b. real b + 1) msh_Y 3 bcs_Y) = Inr st
      \<and> map n_branches (Jv_HT st) = [[0, - 1, - 2]]
      \<and> map n_value (Jv_HT st) = [(0 + 1) + (1 + 1) + (2 + 1)]"
proof -
  let ?st = "\<lparr>new_regions = [(3, 0, 1), (4, 0, 0), (5, 1, 0), (6, 2, 0)], fer = 7,
         BCv_HT =
           [\<lparr>n_label = ''DIR'', n_value = 1, n_idx = 0, n_rg = 3, n_branches = [0]\<rparr>,
            \<lparr>n_label = ''DIR'', n_value = 0, n_idx = 2, n_rg = 5, n_branches = [1]\<rparr>,
            \<lparr>n_label = ''DIR'', n_value = 0, n_idx = 3, n_rg = 6, n_branches = [2]\<rparr>],
         Jv_HT = [\<lparr>n_label = ''JUN'', n_value = 6, n_idx = 1, n_rg = 4, n_branches = [0, - 1, - 2]\<rparr>],
         junctions = {1}, extrema = {3, 2, 0}, nb_extrema = 3, nb_junctions = 1\<rparr>"
  have r: "snd (build_vessel_boundary (\<lambda>b. real b + 1) msh_Y 3 bcs_Y) = Inr ?st"
    by (simp add: Y_eval)
  from junction_weight_sum[OF r]
  have "\<forall>n \<in> set (Jv_HT ?st). n_value n = sum_list (map (\<lambda>b. real (nat \<bar>b\<bar>) + 1) (n_branches n))"
    by blast
  then have "map n_value (Jv_HT ?st) = [(0 + 1) + (1 + 1) + (2 + 1)]" by simp
  with r show ?thesis by simp
qed

subsection \<open>Branch 0 at a non-trivial junction\<close>

lemma process_i0_branch0:
  assumes "3 \<le> length (convex_to_point msh i0)" and "find_branch msh nbr cv = 0"
  shows "process_i0 Rb msh nbr cv i0 st \<in>
           {Inl (Assertion ''Error in network labeling: -0 makes no sense''),
            Inl (Assertion ''Overload in meshv region assembling!''),
            Inl IndexOutOfRange}"
  using assms unfolding process_i0_def Let_def claim_region_def update_at_def
  by (auto split: sum.splits if_splits)

lemma process_convex_branch0:
  assumes "elem_at (ind_points_of_convex msh cv) (ind_points_of_face msh cv 1) = Inr i0"
      and "3 \<le> length (convex_to_point msh i0)" and "find_branch msh nbr cv = 0"
  shows "\<exists>e. process_convex Rb msh nbr cv st = Inl e"
proof -
  from process_i0_branch0[OF assms(2,3), of Rb st]
  obtain e where "process_i0 Rb msh nbr cv i0 st = Inl e" by auto
  with assms(1) show ?thesis
    unfolding process_convex_def by (auto split: sum.splits)
qed

lemma convex_loop_branch0:
  assumes "cv \<in> set cvs"
      and "elem_at (ind_points_of_convex msh cv) (ind_points_of_face msh cv 1) = Inr i0"
      and "3 \<le> length (convex_to_point msh i0)" and "find_branch msh nbr cv = 0"
  shows "\<exists>e. snd (convex_loop Rb msh nbr cvs st) = Inl e"
  using assms(1)
proof (induction cvs arbitrary: st)
  case Nil
  then show ?case by simp
next
  case (Cons c cvs)
  show ?case
  proof (cases "process_convex Rb msh nbr c st")
    case (Inl e)
    then show ?thesis by simp
  next
    case (Inr s)
    with process_convex_branch0[OF assms(2-4), of Rb st] have "c \<noteq> cv" by auto
    with Cons.prems have "cv \<in> set cvs" by simp
    from Cons.IH[OF this, of s] Inr show ?thesis by (simp add: Let_def)
  qed
qed

text \<open>
  Claim C10. When the builder attaches a branch with negative sign to a non-trivial
  junction reached through an element's first endpoint, it asserts afterwards that the
  branch index is strictly positive. So for an element whose first endpoint has three or
  more attached convexes and whose containing-branch search gives index 0, the treatment
  of that endpoint ends in a failure in every state (the failed assertion "-0 makes no
  sense", unless the region-id assertion or an out-of-range junction subscript stops it
  before), and a mesh that has such an element never yields a topology; on the Y-network
  \<open>msh_Y0\<close>, valid but for branch 0 leaving the junction, the run ends with exactly that
  assertion.
\<close>

theorem branch0_inflow_junction_fatal:
  assumes "cv \<in> set (convex_index msh)"
      and "elem_at (ind_points_of_convex msh cv) (ind_points_of_face msh cv 1) = Inr i0"
      and "3 \<le> length (convex_to_point msh i0)"
      and "find_branch msh nbr cv = 0"
  shows "(\<exists>e. snd (build_vessel_boundary Rb msh nbr bcs) = Inl e)
       \<and> process_i0 Rb msh nbr cv i0 st \<in>
           {Inl (Assertion ''Error in network labeling: -0 makes no sense''),
            Inl (Assertion ''Overload in meshv region assembling!''),
            Inl IndexOutOfRange}"
proof
  show "\<exists>e. snd (build_vessel_boundary Rb msh nbr bcs) = Inl e"
    unfolding build_vessel_boundary_def Let_def
    using convex_loop_branch0[OF assms, of Rb] by auto
  show "process_i0 Rb msh nbr cv i0 st \<in>
           {Inl (Assertion ''Error in network labeling: -0 makes no sense''),
            Inl (Assertion ''Overload in meshv region assembling!''),
            Inl IndexOutOfRange}"
    by (rule process_i0_branch0[OF assms(3,4)])
qed

theorem branch0_inflow_junction_fatal_witness:
  "1 \<in> set (convex_index msh_Y0)
   \<and> elem_at (ind_points_of_convex msh_Y0 1) (ind_points_of_face msh_Y0 1 1) = Inr 1
   \<and> 3 \<le> length (convex_to_point msh_Y0 1)
   \<and> find_branch msh_Y0 3 1 = 0
   \<and> snd (build_vessel_boundary (\<lambda>b. real b + 1) msh_Y0 3 bcs_Y)
       = Inl (Assertion ''Error in network labeling: -0 makes no sense'')"
proof -
  have a: "1 \<in> set (convex_index msh_Y0)"
    and b: "elem_at (ind_points_of_convex msh_Y0 1) (ind_points_of_face msh_Y0 1 1) = Inr 1"
    and c: "3 \<le> length (convex_to_point msh_Y0 1)"
    and d: "find_branch msh_Y0 3 1 = 0"
    by (simp_all add: msh_Y0_def msh_Y_def elem_at_def find_branch_def search_def is_in_def eval_nat_numeral)
  from branch0_inflow_junction_fatal[OF a b c d, of "\<lambda>b. real b + 1" bcs_Y]
  obtain e where "snd (build_vessel_boundary (\<lambda>b. real b + 1) msh_Y0 3 bcs_Y) = Inl e" by blast
  then have "snd (build_vessel_boundary (\<lambda>b. real b + 1) msh_Y0 3 bcs_Y)
       = Inl (Assertion ''Error in network labeling: -0 makes no sense'')"
    by (simp add: Y0_eval)
  with a b c d show ?thesis by blast
qed

subsection \<open>Malformed meshes\<close>

lemma mesh_sel_nb:
  "convex_index (msh\<lparr>nb_points := p, nb_faces := f\<rparr>) = convex_index msh"
  "ind_points_of_convex (msh\<lparr>nb_points := p, nb_faces := f\<rparr>) = ind_points_of_convex msh"
  "ind_points_of_face (msh\<lparr>nb_points := p, nb_faces := f\<rparr>) = ind_points_of_face msh"
  "convex_to_point (msh\<lparr>nb_points := p, nb_faces := f\<rparr>) = convex_to_point msh"
  "region_convexes (msh\<lparr>nb_points := p, nb_faces := f\<rparr>) = region_convexes msh"
  by simp_all

lemma process_convex_nb:
  "process_convex Rb (msh\<lparr>nb_points := p, nb_faces := f\<rparr>) nbr cv st = process_convex Rb msh nbr cv st"
  unfolding process_convex_def process_i0_def process_i1_def claim_region_def has_region_def is_in_def
    find_branch_def orientation_def mesh_sel_nb
  by (rule refl)

lemma convex_loop_nb:
  "snd (convex_loop Rb (msh\<lparr>nb_points := p, nb_faces := f\<rparr>) nbr cvs st) = snd (convex_loop Rb msh nbr cvs st)"
  by (induction cvs arbitrary: st) (simp_all add: process_convex_nb Let_def split: sum.splits)

lemma convex_loop_diagnostics:
  "snd (convex_loop Rb msh nbr cvs st) = Inr st' \<Longrightarrow>
     fst (convex_loop Rb msh nbr cvs st) = concat (map (diagnostics msh) cvs)"
  by (induction cvs arbitrary: st) (auto simp: Let_def split: sum.splits)

text \<open>
  Claim C1, as stated: an element with more than 2 endpoints, and an endpoint whose
  region-membership search finds no branch region containing the element, are fatal:
  the builder aborts with a diagnostic and does not go on. Both fail. On \<open>msh_tri\<close>,
  whose only element has 3 points, the builder writes its two messages and completes. On
  \<open>msh_lost\<close>, whose only element is in no branch region, the search ends at
  \<open>nb_branches = 1\<close>, and the builder completes with that index recorded as the branch of
  both boundary nodes.
\<close>

theorem malformed_mesh_not_fatal:
  "nb_points msh_tri 0 = 3
   \<and> (\<exists>st. build_vessel_boundary (\<lambda>b. 1) msh_tri 1 bcs_seg
            = ([MoreThan2Vertices 0, MoreThan2Faces 0], Inr st))
   \<and> \<not> is_in msh_lost 0 0 \<and> find_branch msh_lost 1 0 = 1
   \<and> (\<exists>st. build_vessel_boundary (\<lambda>b. 1) msh_lost 1 bcs_seg = ([], Inr st)
            \<and> map n_branches (BCv_HT st) = [[1], [1]])"
proof -
  have "nb_points msh_tri 0 = 3" by (simp add: msh_tri_def)
  moreover have "\<not> is_in msh_lost 0 0" "find_branch msh_lost 1 0 = 1"
    by (simp_all add: msh_lost_def is_in_def find_branch_def search_def)
  ultimately show ?thesis unfolding tri_eval lost_eval by simp
qed

text \<open>
  Claim C1, amended: during topology construction, for every mesh element that has more
  than 2 endpoints (or more than 2 faces) the builder writes a diagnostic to the error
  stream and goes on processing the mesh: the outcome of the run and the records built
  do not depend on the numbers of points and faces of the elements, and a run that
  completes has written, in the order of the elements, exactly the diagnostics of the
  elements with more than 2 points or faces.
\<close>

theorem extra_points_reported:
  "snd (build_vessel_boundary Rb (msh\<lparr>nb_points := p, nb_faces := f\<rparr>) nbr bcs)
     = snd (build_vessel_boundary Rb msh nbr bcs)
   \<and> (snd (build_vessel_boundary Rb msh nbr bcs) = Inr st \<longrightarrow>
        fst (build_vessel_boundary Rb msh nbr bcs) = concat (map (diagnostics msh) (convex_index msh))
        \<and> (\<forall>cv \<in> set (convex_index msh). nb_points msh cv > 2 \<longrightarrow>
              MoreThan2Vertices cv \<in> set (fst (build_vessel_boundary Rb msh nbr bcs))))"
proof (intro conjI impI)
  show "snd (build_vessel_boundary Rb (msh\<lparr>nb_points := p, nb_faces := f\<rparr>) nbr bcs)
     = snd (build_vessel_boundary Rb msh nbr bcs)"
    unfolding build_vessel_boundary_def has_region_def mesh_sel_nb Let_def
    by (simp add: convex_loop_nb)
next
  assume r: "snd (build_vessel_boundary Rb msh nbr bcs) = Inr st"
  then show d: "fst (build_vessel_boundary Rb msh nbr bcs) = concat (map (diagnostics msh) (convex_index msh))"
    unfolding build_vessel_boundary_def Let_def
    by (auto split: if_splits dest: convex_loop_diagnostics)
  show "\<forall>cv \<in> set (convex_index msh). nb_points msh cv > 2 \<longrightarrow>
              MoreThan2Vertices cv \<in> set (fst (build_vessel_boundary Rb msh nbr bcs))"
    unfolding d by (auto simp: diagnostics_def)
qed

theorem extra_points_reported_witness:
  "snd (build_vessel_boundary (\<lambda>b. 1) (msh_tri\<lparr>nb_points := (\<lambda>cv. 2), nb_faces := (\<lambda>cv. 2)\<rparr>) 1 bcs_seg)
     = snd (build_vessel_boundary (\<lambda>b. 1) msh_tri 1 bcs_seg)
   \<and> (\<exists>st. snd (build_vessel_boundary (\<lambda>b. 1) msh_tri 1 bcs_seg) = Inr st)
   \<and> 0 \<in> set (convex_index msh_tri) \<and> nb_points msh_tri 0 > 2
   \<and> MoreThan2Vertices 0 \<in> set (fst (build_vessel_boundary (\<lambda>b. 1) msh_tri 1 bcs_seg))"
proof -
  note T = extra_points_reported[where Rb = "\<lambda>b. 1" and msh = msh_tri and nbr = 1 and bcs = bcs_seg]
  obtain st where r: "snd (build_vessel_boundary (\<lambda>b. 1) msh_tri 1 bcs_seg) = Inr st"
    unfolding tri_eval by simp
  have c: "0 \<in> set (convex_index msh_tri)" and n: "nb_points msh_tri 0 > 2"
    by (simp_all add: msh_tri_def)
  from T[where st = st, THEN conjunct2, rule_format, OF r] c n
  have "MoreThan2Vertices 0 \<in> set (fst (build_vessel_boundary (\<lambda>b. 1) msh_tri 1 bcs_seg))"
    by blast
  with T[where p = "\<lambda>cv. 2" and f = "\<lambda>cv. 2", THEN conjunct1] r c n show ?thesis by blast
qed

end
